theory Spec2Isabelle
  imports Complex_Main "HOL-Library.Multiset" "HOL-Library.Char_ord" "HOL-Library.List_Lexorder"
    "HOL-Library.Log_Nat"
begin

section \<open>NETRUNNER: a shallow embedding of hacker\_game.py\<close>

text \<open>
  The definitions below follow \<^verbatim>\<open>src/hacker_game.py\<close>. Conventions:
  \<^item> a Python \<^verbatim>\<open>int\<close> is an \<^typ>\<open>int\<close>; a Python \<^verbatim>\<open>float\<close> is a rational (\<^typ>\<open>rat\<close>).
    Probabilities, rates and trace values are idealised as exact rationals; where a float
    product goes through \<^verbatim>\<open>int(...)\<close> in the seizure of assets and in the attack session,
    the product is rounded as binary64 rounds it (\<open>binary64\<close> below);
  \<^item> a dataclass is a record. Where two dataclasses share a field name, the field of the
    less central one carries a short prefix (\<open>emp_compromised\<close> for \<^verbatim>\<open>Employee.compromised\<close>);
  \<^item> every call of \<^verbatim>\<open>random\<close> and every \<^verbatim>\<open>input()\<close> is an explicit argument: the value
    drawn, or the result of \<^verbatim>\<open>int(choice)\<close> as an \<^typ>\<open>int option\<close>, where \<open>None\<close> stands
    for the \<^verbatim>\<open>ValueError\<close> of a non-numeric line;
  \<^item> printing, \<^verbatim>\<open>time.sleep\<close> and the event log text are left out.
\<close>

subsection \<open>GameConstants\<close>

definition STARTING_CREDITS :: int where "STARTING_CREDITS = 1000"
definition STARTING_LEVEL :: int where "STARTING_LEVEL = 1"
definition MAX_SKILL_LEVEL :: int where "MAX_SKILL_LEVEL = 10"
definition EXP_PER_LEVEL_MULTIPLIER :: int where "EXP_PER_LEVEL_MULTIPLIER = 100"
definition BASE_EXPLOIT_SUCCESS_RATE :: rat where "BASE_EXPLOIT_SUCCESS_RATE = 5 / 100"
definition MAX_EXPLOIT_SUCCESS_RATE :: rat where "MAX_EXPLOIT_SUCCESS_RATE = 98 / 100"
definition SKILL_SUCCESS_BONUS :: rat where "SKILL_SUCCESS_BONUS = 5 / 100"
definition TOOL_SUCCESS_BONUS :: rat where "TOOL_SUCCESS_BONUS = 1 / 10"
definition PATCH_PENALTY :: rat where "PATCH_PENALTY = 3 / 100"
definition TRACE_COMPLETE_THRESHOLD :: rat where "TRACE_COMPLETE_THRESHOLD = 100"
definition TRACE_HEAT_INCREASE :: int where "TRACE_HEAT_INCREASE = 15"
definition TRACE_IDENTITY_HEAT_INCREASE :: int where "TRACE_IDENTITY_HEAT_INCREASE = 10"
definition TRACE_PENALTY_MIN :: int where "TRACE_PENALTY_MIN = 100"
definition TRACE_PENALTY_MAX :: int where "TRACE_PENALTY_MAX = 500"
definition INVESTIGATION_START_THRESHOLD :: int where "INVESTIGATION_START_THRESHOLD = 50"
definition INVESTIGATION_START_CHANCE :: rat where "INVESTIGATION_START_CHANCE = 3 / 10"
definition STEALTH_SKILL_BONUS :: rat where "STEALTH_SKILL_BONUS = 5 / 100"
definition PROXY_CHAIN_BONUS :: rat where "PROXY_CHAIN_BONUS = 1 / 10"
definition BOUNCE_NODE_BONUS :: rat where "BOUNCE_NODE_BONUS = 12 / 100"
definition MAX_STEALTH_REDUCTION :: rat where "MAX_STEALTH_REDUCTION = 9 / 10"
definition DDOS_TRACE_INCREASE :: rat where "DDOS_TRACE_INCREASE = 25"
definition DDOS_HEAT_INCREASE :: int where "DDOS_HEAT_INCREASE = 3"
definition BOTNET_BUILD_COST :: int where "BOTNET_BUILD_COST = 2000"
definition BOTNET_SIZE_PER_SKILL :: int where "BOTNET_SIZE_PER_SKILL = 20"
definition BOTNET_BASE_QUALITY :: rat where "BOTNET_BASE_QUALITY = 1 / 2"
definition BOTNET_QUALITY_PER_SKILL :: rat where "BOTNET_QUALITY_PER_SKILL = 5 / 100"
definition PROXY_BASE_COST :: int where "PROXY_BASE_COST = 1000"
definition PROXY_COST_INCREMENT :: int where "PROXY_COST_INCREMENT = 500"
definition PHISHING_SKILL_BONUS :: rat where "PHISHING_SKILL_BONUS = 8 / 100"
definition PHISHING_SUCCESS_TRACE :: rat where "PHISHING_SUCCESS_TRACE = 5"
definition PHISHING_FAIL_TRACE :: rat where "PHISHING_FAIL_TRACE = 15"
definition PHISHING_FAIL_HEAT :: int where "PHISHING_FAIL_HEAT = 2"
definition INVESTIGATION_ASSET_LOSS_PERCENT :: rat where "INVESTIGATION_ASSET_LOSS_PERCENT = 7 / 10"
definition INVESTIGATION_REP_LOSS :: int where "INVESTIGATION_REP_LOSS = 100"
definition INVESTIGATION_TOOLS_LOST :: nat where "INVESTIGATION_TOOLS_LOST = 3"
definition INVESTIGATION_RESET_HEAT :: int where "INVESTIGATION_RESET_HEAT = 20"
definition LAUNDER_COST :: int where "LAUNDER_COST = 2000"
definition LAUNDER_IDENTITY_REDUCTION :: int where "LAUNDER_IDENTITY_REDUCTION = 15"
definition LAUNDER_INVESTIGATION_REDUCTION :: rat where "LAUNDER_INVESTIGATION_REDUCTION = 5"
definition RIVAL_ACTIVITY_CHANCE :: rat where "RIVAL_ACTIVITY_CHANCE = 1 / 10"
definition RIVAL_COMPROMISE_CHANCE :: rat where "RIVAL_COMPROMISE_CHANCE = 5 / 100"
definition RIVAL_HACK_BASE_SUCCESS :: rat where "RIVAL_HACK_BASE_SUCCESS = 3 / 10"
definition ADMIN_ACTIVATE_THRESHOLD :: rat where "ADMIN_ACTIVATE_THRESHOLD = 40"
definition ADMIN_ACTIVATE_CHANCE :: rat where "ADMIN_ACTIVATE_CHANCE = 3 / 10"
definition ADMIN_TRACE_MULTIPLIER :: rat where "ADMIN_TRACE_MULTIPLIER = 13 / 10"

lemmas GameConstants =
  STARTING_CREDITS_def STARTING_LEVEL_def MAX_SKILL_LEVEL_def EXP_PER_LEVEL_MULTIPLIER_def
  BASE_EXPLOIT_SUCCESS_RATE_def MAX_EXPLOIT_SUCCESS_RATE_def SKILL_SUCCESS_BONUS_def
  TOOL_SUCCESS_BONUS_def PATCH_PENALTY_def TRACE_COMPLETE_THRESHOLD_def TRACE_HEAT_INCREASE_def
  TRACE_IDENTITY_HEAT_INCREASE_def TRACE_PENALTY_MIN_def TRACE_PENALTY_MAX_def
  INVESTIGATION_START_THRESHOLD_def INVESTIGATION_START_CHANCE_def STEALTH_SKILL_BONUS_def
  PROXY_CHAIN_BONUS_def BOUNCE_NODE_BONUS_def MAX_STEALTH_REDUCTION_def DDOS_TRACE_INCREASE_def
  DDOS_HEAT_INCREASE_def BOTNET_BUILD_COST_def BOTNET_SIZE_PER_SKILL_def BOTNET_BASE_QUALITY_def
  BOTNET_QUALITY_PER_SKILL_def PROXY_BASE_COST_def PROXY_COST_INCREMENT_def
  PHISHING_SKILL_BONUS_def PHISHING_SUCCESS_TRACE_def PHISHING_FAIL_TRACE_def
  PHISHING_FAIL_HEAT_def INVESTIGATION_ASSET_LOSS_PERCENT_def INVESTIGATION_REP_LOSS_def
  INVESTIGATION_TOOLS_LOST_def INVESTIGATION_RESET_HEAT_def LAUNDER_COST_def
  LAUNDER_IDENTITY_REDUCTION_def LAUNDER_INVESTIGATION_REDUCTION_def RIVAL_ACTIVITY_CHANCE_def
  RIVAL_COMPROMISE_CHANCE_def RIVAL_HACK_BASE_SUCCESS_def ADMIN_ACTIVATE_THRESHOLD_def
  ADMIN_ACTIVATE_CHANCE_def ADMIN_TRACE_MULTIPLIER_def

subsection \<open>Python values\<close>

text \<open>The exceptions of the source that the model keeps as values. \<open>Unmodelled\<close> is no
  exception of Python: it marks a value that the typed records of this model cannot hold.\<close>

datatype py_error = KeyError | ZeroDivisionError | TypeError | ValueError | IndexError
  | OverflowError | Unmodelled

text \<open>\<^verbatim>\<open>int(x)\<close> on a float truncates towards zero.\<close>

definition py_int :: "rat \<Rightarrow> int" where
  "py_int x = (if 0 \<le> x then \<lfloor>x\<rfloor> else \<lceil>x\<rceil>)"

text \<open>IEEE 754 binary64, the \<^verbatim>\<open>float\<close> of CPython: a result is rounded to the nearest value
  with 53 significant bits, a tie to the even one. \<open>float_exponent x\<close> is the exponent \<open>e\<close>
  with \<^verbatim>\<open>2^e <= |x| < 2^(e+1)\<close>; the unit in the last place is \<^verbatim>\<open>2^(e-52)\<close>, and
  \<^verbatim>\<open>2^(-1074)\<close> in the subnormal range. A float literal such as \<^verbatim>\<open>0.7\<close> is
  \<open>binary64 (7 / 10)\<close>.\<close>

definition round_half_even :: "rat \<Rightarrow> int" where
  "round_half_even x =
     (let f = \<lfloor>x\<rfloor>; r = x - of_int f
      in if r < 1 / 2 then f else if 1 / 2 < r then f + 1 else if even f then f else f + 1)"

definition float_exponent :: "rat \<Rightarrow> int" where
  "float_exponent x =
     (let (n, d) = quotient_of \<bar>x\<bar>; e = bitlen n - bitlen d
      in if \<bar>x\<bar> < 2 powi e then e - 1 else e)"

definition binary64 :: "rat \<Rightarrow> rat" where
  "binary64 x =
     (if x = 0 then 0
      else (let ulp = 2 powi (max (float_exponent x - 52) (- 1074))
            in of_int (round_half_even (x / ulp)) * ulp))"

text \<open>A rounded value is finite when it is below \<^verbatim>\<open>2^1024\<close>, that is, when its exponent
  is below 1024; from there on binary64 has an infinity.\<close>

definition finite_float :: "rat \<Rightarrow> bool" where
  "finite_float x \<longleftrightarrow> float_exponent x < 1024"

text \<open>The conversion of an \<^verbatim>\<open>int\<close> operand of a float operation: correctly rounded, and an
  \<^verbatim>\<open>OverflowError\<close> (int too large to convert to float) when the rounded value is not
  finite.\<close>

definition float_of_int :: "int \<Rightarrow> py_error + rat" where
  "float_of_int i =
     (let x = binary64 (of_int i) in if finite_float x then Inr x else Inl OverflowError)"

text \<open>\<^verbatim>\<open>int(i * x)\<close> for an \<^verbatim>\<open>int\<close> \<open>i\<close> and a float \<open>x\<close>: the int is converted, the product is
  rounded, and \<^verbatim>\<open>int\<close> truncates it; a product that rounds to an infinity makes \<^verbatim>\<open>int\<close>
  raise an \<^verbatim>\<open>OverflowError\<close> as well.\<close>

definition int_of_product :: "int \<Rightarrow> rat \<Rightarrow> py_error + int" where
  "int_of_product i x =
     (case float_of_int i of
        Inl e \<Rightarrow> Inl e
      | Inr f \<Rightarrow>
         (let r = binary64 (f * x)
          in if finite_float r then Inr (py_int r) else Inl OverflowError))"

text \<open>A \<^verbatim>\<open>datetime\<close> is kept as its ISO-8601 text, which \<^verbatim>\<open>isoformat\<close> and
  \<^verbatim>\<open>fromisoformat\<close> convert to and from without loss.\<close>

datatype datetime = Datetime string

text \<open>A field annotated \<^verbatim>\<open>Tuple[int, int]\<close> holds whatever sequence was assigned to it:
  Python compares a tuple and a list as different values even with equal elements.\<close>

datatype int_seq = PyTuple "int list" | PyList "int list"

fun seq_items :: "int_seq \<Rightarrow> int list" where
  "seq_items (PyTuple xs) = xs"
| "seq_items (PyList xs) = xs"

subsection \<open>Enumerations\<close>

datatype NetworkType = CORPORATE | GOVERNMENT | FINANCIAL | RESEARCH | CRIMINAL | MILITARY
  | INFRASTRUCTURE

datatype ExploitType = SQL_INJECTION | BUFFER_OVERFLOW | XSS | RCE | PRIVILEGE_ESCALATION
  | ZERO_DAY | SOCIAL_ENGINEERING | MAN_IN_MIDDLE | PHISHING | SUPPLY_CHAIN | CRYPTOGRAPHIC

datatype ToolType = SCANNER | EXPLOIT_FRAMEWORK | PROXY_CHAIN | CRYPTANALYSIS
  | BOTNET_CONTROLLER | KEYLOGGER | ROOTKIT

datatype EncryptionType = AES_128 | AES_256 | RSA_1024 | RSA_2048 | RSA_4096 | WEAK_HASH

datatype HardwareType = CPU | RAM | STORAGE | COOLING

datatype EventType = GLOBAL_PATCH | POLICE_CRACKDOWN | ZERO_DAY_LEAK | NETWORK_WORM

subsection \<open>Dataclasses\<close>

record HardwareComponent =
  hw_name :: string
  htype :: HardwareType
  hw_level :: int
  hw_cost :: int
  bonus :: rat
  hw_description :: string

record WorldEvent =
  ev_name :: string
  etype :: EventType
  duration :: int
  multiplier :: rat
  ev_description :: string
  target_faction :: "string option"
  target_network :: "NetworkType option"

record Vulnerability =
  vuln_name :: string
  exploit_type :: ExploitType
  severity :: rat
  patch_level :: int
  discovery_difficulty :: rat
  firewall_damage :: int_seq
  trace_cost :: int
  success_rate_base :: rat
  requires_tool :: "string option"

record EncryptedData =
  encryption_type :: EncryptionType
  data_size :: int
  enc_value :: int
  enc_difficulty :: rat
  cracked :: bool

record Employee =
  emp_name :: string
  email :: string
  department :: string
  access_level :: int
  social_media_activity :: rat
  phishing_susceptibility :: rat
  emp_compromised :: bool

record Service =
  svc_name :: string
  version :: string
  svc_port :: int
  svc_state :: string
  vulnerabilities :: "Vulnerability list"
  encryption :: "EncryptedData option"
  employees_with_access :: "Employee list"

record Honeypot =
  hp_port :: int
  fake_service :: string
  detection_chance :: rat
  trace_increase :: int

record Tool =
  tool_name :: string
  tool_type :: ToolType
  tool_cost :: int
  effectiveness :: rat
  tool_description :: string
  level_requirement :: int
  stealth_penalty :: rat

record Botnet =
  botnet_size :: int
  quality :: rat
  maintenance_cost :: int
  ddos_power :: int
  detected_nodes :: int

record NetworkNode =
  uid :: string
  name :: string
  ip_address :: string
  network_type :: NetworkType
  security_rating :: int
  firewall_strength :: int
  max_firewall :: int
  ice_level :: int
  services :: "Service list"
  discovered_services :: "int set"
  discovered_vulns :: "string set"
  compromised :: bool
  data_value :: int
  trace_progress :: rat
  trace_speed :: rat
  last_attack_time :: "datetime option"
  connections :: "string list"
  honeypots :: "Honeypot list"
  has_siem :: bool
  has_incident_response :: bool
  admin_active :: bool
  admin_skill :: int
  backdoor_installed :: bool
  network_segment :: string
  employees :: "Employee list"
  encrypted_traffic :: "EncryptedData list"

record PlayerSkills =
  scanning :: int
  exploitation :: int
  stealth :: int
  cryptanalysis :: int
  social_engineering :: int
  reverse_engineering :: int
  botnet_management :: int

record Faction =
  faction_name :: string
  faction_reputation :: int
  faction_hostile :: bool

record PlayerState =
  handle :: string
  level :: int
  experience :: int
  credits :: int
  reputation :: int
  heat_level :: int
  skills :: PlayerSkills
  discovered_nodes :: "string set"
  compromised_nodes :: "string set"
  current_location :: string
  inventory :: "Tool list"
  active_contracts :: "string list"
  completed_contracts :: "string set"
  game_time :: datetime
  total_playtime :: rat
  botnets :: "Botnet list"
  factions :: "(string \<times> Faction) list"
  identity_heat :: int
  known_exploits :: "string set"
  proxy_chains :: int
  safe_houses :: "string list"
  under_investigation :: bool
  investigation_progress :: rat
  hardware :: "(string \<times> HardwareComponent) list"
  active_events :: "WorldEvent list"
  bounced_nodes :: "string list"

record Contract =
  contract_uid :: string
  title :: string
  contract_description :: string
  target_node_uid :: string
  objective :: string
  reward :: int
  reputation_change :: int
  time_limit :: "rat option"
  contract_difficulty :: int
  contractor :: string
  contract_faction :: "string option"
  completed :: bool
  failed :: bool
  deadline :: "datetime option"

record RivalHacker =
  rival_name :: string
  skill_level :: int
  specialization :: string
  active_targets :: "string list"
  last_seen :: datetime
  rival_hostile :: bool

text \<open>A dict lookup \<^verbatim>\<open>d[k]\<close> raises \<^verbatim>\<open>KeyError\<close> on a missing key. Dicts are association
  lists in insertion order.\<close>

definition dict_get :: "('k \<times> 'v) list \<Rightarrow> 'k \<Rightarrow> py_error + 'v" where
  "dict_get d k = (case map_of d k of None \<Rightarrow> Inl KeyError | Some v \<Rightarrow> Inr v)"

subsection \<open>check\_level\_up\<close>

text \<open>The list \<^verbatim>\<open>skills\<close> of \<^verbatim>\<open>check_level_up\<close>, with \<^verbatim>\<open>getattr\<close> and \<^verbatim>\<open>setattr\<close> on the
  skill record as an explicit selector.\<close>

datatype skill_name = Scanning | Exploitation | Stealth | Cryptanalysis | Social_engineering
  | Reverse_engineering | Botnet_management

definition skill_names :: "skill_name list" where
  "skill_names = [Scanning, Exploitation, Stealth, Cryptanalysis, Social_engineering,
     Reverse_engineering, Botnet_management]"

fun getattr :: "PlayerSkills \<Rightarrow> skill_name \<Rightarrow> int" where
  "getattr s Scanning = scanning s"
| "getattr s Exploitation = exploitation s"
| "getattr s Stealth = stealth s"
| "getattr s Cryptanalysis = cryptanalysis s"
| "getattr s Social_engineering = social_engineering s"
| "getattr s Reverse_engineering = reverse_engineering s"
| "getattr s Botnet_management = botnet_management s"

fun setattr :: "PlayerSkills \<Rightarrow> skill_name \<Rightarrow> int \<Rightarrow> PlayerSkills" where
  "setattr s Scanning v = s\<lparr>scanning := v\<rparr>"
| "setattr s Exploitation v = s\<lparr>exploitation := v\<rparr>"
| "setattr s Stealth v = s\<lparr>stealth := v\<rparr>"
| "setattr s Cryptanalysis v = s\<lparr>cryptanalysis := v\<rparr>"
| "setattr s Social_engineering v = s\<lparr>social_engineering := v\<rparr>"
| "setattr s Reverse_engineering v = s\<lparr>reverse_engineering := v\<rparr>"
| "setattr s Botnet_management v = s\<lparr>botnet_management := v\<rparr>"

text \<open>The \<^verbatim>\<open>try\<close> block after the prompt. \<open>choice = None\<close> is the \<^verbatim>\<open>ValueError\<close> of
  \<^verbatim>\<open>int(choice)\<close>, which the source swallows.\<close>

definition choose_skill :: "int option \<Rightarrow> PlayerSkills \<Rightarrow> PlayerSkills" where
  "choose_skill choice s =
     (case choice of
        None \<Rightarrow> s
      | Some c \<Rightarrow>
          (let idx = c - 1 in
           if 0 \<le> idx \<and> idx < int (length skill_names) then
             (let skill = skill_names ! nat idx; current_val = getattr s skill in
              if current_val < MAX_SKILL_LEVEL then setattr s skill (current_val + 1) else s)
           else s))"

text \<open>The \<^verbatim>\<open>while\<close> loop of \<^verbatim>\<open>check_level_up\<close>. \<open>inp k\<close> is the answer to the \<open>k\<close>-th prompt
  of this call; the result carries the number of prompts shown. The loop is not assumed to
  end: \<open>None\<close> is a run that never leaves it.\<close>

partial_function (option) level_loop ::
  "(nat \<Rightarrow> int option) \<Rightarrow> nat \<Rightarrow> int \<Rightarrow> PlayerState \<Rightarrow> (PlayerState \<times> nat) option" where
  [code]: "level_loop inp k exp_needed p =
     (if experience p \<ge> exp_needed then
        (let p1 = p\<lparr>experience := experience p - exp_needed\<rparr>;
             p2 = p1\<lparr>level := level p1 + 1\<rparr>;
             exp_needed' = level p2 * EXP_PER_LEVEL_MULTIPLIER;
             p3 = p2\<lparr>skills := choose_skill (inp k) (skills p2)\<rparr>
         in level_loop inp (Suc k) exp_needed' p3)
      else Some (p, k))"

definition check_level_up :: "(nat \<Rightarrow> int option) \<Rightarrow> PlayerState \<Rightarrow> (PlayerState \<times> nat) option" where
  "check_level_up inp p = level_loop inp 0 (level p * EXP_PER_LEVEL_MULTIPLIER) p"

subsection \<open>calculate\_success\_rate\<close>

definition calculate_success_rate :: "PlayerState \<Rightarrow> Vulnerability \<Rightarrow> py_error + rat" where
  "calculate_success_rate p vuln =
     (let base = success_rate_base vuln;
          skill_bonus = of_int (exploitation (skills p)) * SKILL_SUCCESS_BONUS;
          patch_penalty = of_int (patch_level vuln) * PATCH_PENALTY;
          tool_bonus = fold (\<lambda>tool acc. if tool_type tool = EXPLOIT_FRAMEWORK
                              then acc + effectiveness tool * TOOL_SUCCESS_BONUS else acc)
                         (inventory p) 0
      in case dict_get (hardware p) ''CPU'' of
           Inl e \<Rightarrow> Inl e
         | Inr cpu \<Rightarrow>
            (case dict_get (hardware p) ''RAM'' of
               Inl e \<Rightarrow> Inl e
             | Inr ram \<Rightarrow>
                (let cpu_bonus = (bonus cpu - 1) * (2 / 10);
                     ram_bonus = (bonus ram - 1) * (1 / 10);
                     event_mult = fold (\<lambda>event m.
                         if etype event = GLOBAL_PATCH then m * multiplier event
                         else if etype event = ZERO_DAY_LEAK then m * multiplier event
                         else m) (active_events p) 1
                 in Inr (max BASE_EXPLOIT_SUCCESS_RATE (min MAX_EXPLOIT_SUCCESS_RATE
                      ((base + skill_bonus + tool_bonus + cpu_bonus + ram_bonus) * event_mult
                        - patch_penalty))))))"

text \<open>The formula as the specification words it, for comparison with the code.\<close>

definition clamp :: "rat \<Rightarrow> rat \<Rightarrow> rat \<Rightarrow> rat" where
  "clamp lo hi x = max lo (min hi x)"

definition spec_success_rate :: "rat \<Rightarrow> int \<Rightarrow> rat \<Rightarrow> rat \<Rightarrow> rat \<Rightarrow> rat \<Rightarrow> int \<Rightarrow> rat" where
  "spec_success_rate base skill tool_bonus cpu_bonus ram_bonus event_multiplier patch =
     clamp (5 / 100) (98 / 100)
       ((base + of_int skill * (5 / 100) + tool_bonus * (1 / 10) + (cpu_bonus - 1) * (2 / 10)
          + (ram_bonus - 1) * (1 / 10)) * event_multiplier - of_int patch * (3 / 100))"

definition exploit_tool_bonus :: "Tool list \<Rightarrow> rat" where
  "exploit_tool_bonus tools =
     sum_list (map effectiveness (filter (\<lambda>t. tool_type t = EXPLOIT_FRAMEWORK) tools))"

definition exploit_event_multiplier :: "WorldEvent list \<Rightarrow> rat" where
  "exploit_event_multiplier evs =
     prod_list (map multiplier
       (filter (\<lambda>e. etype e = GLOBAL_PATCH \<or> etype e = ZERO_DAY_LEAK) evs))"

subsection \<open>handle\_investigation\_complete\<close>

text \<open>\<^verbatim>\<open>random.sample(inventory, k)\<close> is the list of positions it drew, \<open>sample\<close>: \<open>k\<close> distinct
  positions of the inventory. The function also returns \<^verbatim>\<open>asset_loss\<close>, which the source
  prints.\<close>

definition is_sample :: "nat list \<Rightarrow> nat \<Rightarrow> nat \<Rightarrow> bool" where
  "is_sample sample n k \<longleftrightarrow> distinct sample \<and> length sample = k \<and> list_all (\<lambda>i. i < n) sample"

definition handle_investigation_complete ::
  "nat list \<Rightarrow> PlayerState \<Rightarrow> py_error + PlayerState \<times> int" where
  "handle_investigation_complete sample p =
     (case int_of_product (credits p) (binary64 INVESTIGATION_ASSET_LOSS_PERCENT) of
        Inl e \<Rightarrow> Inl e
      | Inr asset_loss \<Rightarrow>
         (let p1 = p\<lparr>credits := max 100 (credits p - asset_loss)\<rparr>;
              p2 = p1\<lparr>reputation := max 0 (reputation p1 - INVESTIGATION_REP_LOSS)\<rparr>;
              p3 = (if inventory p2 \<noteq> [] then
                      (let lost_tools = map (\<lambda>i. inventory p2 ! i) sample
                       in p2\<lparr>inventory := fold remove1 lost_tools (inventory p2)\<rparr>)
                    else p2);
              p4 = p3\<lparr>botnets := []\<rparr>;
              p5 = p4\<lparr>under_investigation := False\<rparr>;
              p6 = p5\<lparr>investigation_progress := 0\<rparr>;
              p7 = p6\<lparr>heat_level := INVESTIGATION_RESET_HEAT\<rparr>
          in Inr (p7, asset_loss)))"

subsection \<open>The attack session\<close>

text \<open>What one pass through the loop of \<^verbatim>\<open>attack_node\<close> reads from the player and from
  \<^verbatim>\<open>random\<close>.\<close>

record attack_draws =
  choice :: "int option"
  exploit_roll :: rat
  minigame_passed :: bool
  damage_draw :: int
  patch_roll :: rat
  botnet_choice :: "int option"
  admin_roll :: rat
  penalty_draw :: int
  investigation_roll :: rat
  level_inputs :: "nat \<Rightarrow> int option"

definition digits10 :: string where
  "digits10 = ''0123456789''"

fun str_nat :: "nat \<Rightarrow> string" where
  "str_nat n = (if n < 10 then [digits10 ! n] else str_nat (n div 10) @ [digits10 ! (n mod 10)])"

definition vuln_id :: "NetworkNode \<Rightarrow> nat \<Rightarrow> Vulnerability \<Rightarrow> string" where
  "vuln_id node i vuln = uid node @ ''_'' @ str_nat i @ ''_'' @ vuln_name vuln"

text \<open>\<^verbatim>\<open>vulns_list\<close>: the pairs (service, vulnerability) are kept as their positions.\<close>

definition vulns_list :: "NetworkNode \<Rightarrow> (nat \<times> nat) list" where
  "vulns_list node =
     concat (map (\<lambda>(i, service).
        if int i \<in> discovered_services node then
          map (\<lambda>j. (i, j))
            (filter (\<lambda>j. vuln_id node i (vulnerabilities service ! j) \<in> discovered_vulns node)
               [0..<length (vulnerabilities service)])
        else [])
      (enumerate 0 (services node)))"

fun ToolType_value :: "ToolType \<Rightarrow> string" where
  "ToolType_value SCANNER = ''scanner''"
| "ToolType_value EXPLOIT_FRAMEWORK = ''exploit_framework''"
| "ToolType_value PROXY_CHAIN = ''proxy_chain''"
| "ToolType_value CRYPTANALYSIS = ''cryptanalysis''"
| "ToolType_value BOTNET_CONTROLLER = ''botnet_controller''"
| "ToolType_value KEYLOGGER = ''keylogger''"
| "ToolType_value ROOTKIT = ''rootkit''"

definition needs_missing_tool :: "PlayerState \<Rightarrow> Vulnerability \<Rightarrow> bool" where
  "needs_missing_tool p vuln =
     (case requires_tool vuln of
        None \<Rightarrow> False
      | Some t \<Rightarrow> t \<noteq> [] \<and> \<not> list_ex (\<lambda>tool. ToolType_value (tool_type tool) = t) (inventory p))"

text \<open>\<^verbatim>\<open>random.randint(*vuln.firewall_damage)\<close>: two arguments or a \<^verbatim>\<open>TypeError\<close>, an empty
  range is a \<^verbatim>\<open>ValueError\<close>; \<open>draw\<close> is the number drawn.\<close>

definition randint_seq :: "int_seq \<Rightarrow> int \<Rightarrow> py_error + int" where
  "randint_seq s draw =
     (case seq_items s of
        [a, b] \<Rightarrow> if a \<le> b then Inr draw else Inl ValueError
      | _ \<Rightarrow> Inl TypeError)"

definition set_patch_level :: "NetworkNode \<Rightarrow> nat \<Rightarrow> nat \<Rightarrow> int \<Rightarrow> NetworkNode" where
  "set_patch_level node si vi v =
     (let service = services node ! si;
          vuln = vulnerabilities service ! vi
      in node\<lparr>services := (services node)
           [si := service\<lparr>vulnerabilities := (vulnerabilities service)
              [vi := vuln\<lparr>patch_level := v\<rparr>]\<rparr>]\<rparr>)"

definition execute_exploit ::
  "attack_draws \<Rightarrow> PlayerState \<Rightarrow> NetworkNode \<Rightarrow> nat \<Rightarrow> nat
     \<Rightarrow> (py_error + PlayerState \<times> NetworkNode) option" where
  "execute_exploit d p node si vi =
     (let vuln = vulnerabilities (services node ! si) ! vi in
      case calculate_success_rate p vuln of
        Inl e \<Rightarrow> Some (Inl e)
      | Inr success_rate \<Rightarrow>
          if exploit_roll d < success_rate then
            (if severity vuln > 7 / 10 \<and> \<not> minigame_passed d then
               Some (Inr (p, node\<lparr>trace_progress := trace_progress node + 10\<rparr>))
             else
               (case randint_seq (firewall_damage vuln) (damage_draw d) of
                  Inl e \<Rightarrow> Some (Inl e)
                | Inr damage0 \<Rightarrow>
               (case float_of_int (exploitation (skills p)) of
                  Inl e \<Rightarrow> Some (Inl e)
                | Inr skill \<Rightarrow>
               (case int_of_product damage0
                       (binary64 (1 + binary64 (skill * binary64 (1 / 10)))) of
                  Inl e \<Rightarrow> Some (Inl e)
                | Inr damage1 \<Rightarrow>
               (case dict_get (hardware p) ''CPU'' of
                  Inl e \<Rightarrow> Some (Inl e)
                | Inr cpu \<Rightarrow>
               (case int_of_product damage1 (bonus cpu) of
                  Inl e \<Rightarrow> Some (Inl e)
                | Inr damage \<Rightarrow>
               (case int_of_product 10 (severity vuln) of
                  Inl e \<Rightarrow> Some (Inl e)
                | Inr gained \<Rightarrow>
                   (let node' = node\<lparr>firewall_strength := firewall_strength node - damage\<rparr>;
                        p' = p\<lparr>experience := experience p + gained\<rparr>
                    in map_option (\<lambda>r. Inr (fst r, node'))
                         (check_level_up (level_inputs d) p')))))))))
          else
            (let node' = node\<lparr>trace_progress := trace_progress node + of_int (trace_cost vuln)\<rparr>
             in if admin_active node' \<and> patch_roll d < 2 / 10
                then Some (Inr (p, set_patch_level node' si vi (patch_level vuln + 1)))
                else Some (Inr (p, node'))))"

definition use_botnet_ddos ::
  "attack_draws \<Rightarrow> PlayerState \<Rightarrow> NetworkNode
     \<Rightarrow> (py_error + PlayerState \<times> NetworkNode) option" where
  "use_botnet_ddos d p node =
     (if botnets p = [] then Some (Inr (p, node))
      else case botnet_choice d of
        None \<Rightarrow> Some (Inr (p, node))
      | Some c \<Rightarrow>
         (let idx = c - 1 in
          if 0 \<le> idx \<and> idx < int (length (botnets p)) then
            (let botnet = botnets p ! nat idx in
             case int_of_product (ddos_power botnet) (quality botnet) of
               Inl e \<Rightarrow> Some (Inl e)
             | Inr damage \<Rightarrow>
                (let node1 = node\<lparr>firewall_strength := firewall_strength node - damage\<rparr>;
                     node2 = node1\<lparr>trace_progress := trace_progress node1 + DDOS_TRACE_INCREASE\<rparr>;
                     p1 = p\<lparr>heat_level := heat_level p + DDOS_HEAT_INCREASE\<rparr>;
                     p2 = p1\<lparr>experience := experience p1 + 15\<rparr>
                 in map_option (\<lambda>r. Inr (fst r, node2)) (check_level_up (level_inputs d) p2)))
          else Some (Inr (p, node))))"

definition clear_traces :: "PlayerState \<Rightarrow> NetworkNode \<Rightarrow> NetworkNode" where
  "clear_traces p node =
     (let effectiveness0 = of_int (15 + stealth (skills p) * 5);
          effectiveness1 = fold (\<lambda>tool acc. if tool_type tool = ROOTKIT
                                  then acc + effectiveness tool * 10 else acc)
                             (inventory p) effectiveness0
      in node\<lparr>trace_progress := max 0 (trace_progress node - effectiveness1)\<rparr>)"

text \<open>The per-pass trace accrual, from \<^verbatim>\<open># Calculate trace increase\<close> to
  \<^verbatim>\<open>node.trace_progress += trace_increase\<close>.\<close>

definition stealth_bonus :: "PlayerState \<Rightarrow> rat" where
  "stealth_bonus p =
     (let sb0 = of_int (stealth (skills p)) * STEALTH_SKILL_BONUS;
          sb1 = (if proxy_chains p > 0
                 then sb0 + of_int (proxy_chains p) * PROXY_CHAIN_BONUS else sb0);
          sb2 = (if bounced_nodes p \<noteq> []
                 then sb1 + of_nat (length (bounced_nodes p)) * BOUNCE_NODE_BONUS else sb1)
      in sb2)"

definition trace_increase_of :: "PlayerState \<Rightarrow> NetworkNode \<Rightarrow> py_error + rat" where
  "trace_increase_of p node =
     (let t0 = trace_speed node in
      case dict_get (hardware p) ''Cooling'' of
        Inl e \<Rightarrow> Inl e
      | Inr cooling \<Rightarrow>
         if bonus cooling = 0 then Inl ZeroDivisionError
         else
          (let t1 = t0 / bonus cooling;
               t2 = fold (\<lambda>event t.
                      if etype event = POLICE_CRACKDOWN then t * multiplier event
                      else if etype event = NETWORK_WORM then t * multiplier event
                      else t) (active_events p) t1;
               t3 = (if has_siem node then t2 * (3 / 2) else t2)
           in Inr (t3 * (1 - min MAX_STEALTH_REDUCTION (stealth_bonus p)))))"

definition accrue_trace :: "PlayerState \<Rightarrow> NetworkNode \<Rightarrow> py_error + NetworkNode" where
  "accrue_trace p node =
     (case trace_increase_of p node of
        Inl e \<Rightarrow> Inl e
      | Inr increase \<Rightarrow>
          Inr (node\<lparr>trace_progress := trace_progress node + increase\<rparr>))"

definition handle_trace_complete :: "attack_draws \<Rightarrow> PlayerState \<Rightarrow> PlayerState" where
  "handle_trace_complete d p =
     (let p1 = p\<lparr>heat_level := heat_level p + TRACE_HEAT_INCREASE\<rparr>;
          p2 = p1\<lparr>identity_heat := identity_heat p1 + TRACE_IDENTITY_HEAT_INCREASE\<rparr>;
          penalty = penalty_draw d;
          p3 = p2\<lparr>credits := max 0 (credits p2 - penalty)\<rparr>
      in if identity_heat p3 > INVESTIGATION_START_THRESHOLD \<and> \<not> under_investigation p3
            \<and> investigation_roll d < INVESTIGATION_START_CHANCE
         then p3\<lparr>under_investigation := True\<rparr> else p3)"

datatype loop_ctl = Next | Break | Continue

text \<open>The \<^verbatim>\<open>try\<close> block of the loop: the dispatch on the number typed. A \<^verbatim>\<open>ValueError\<close>,
  from \<^verbatim>\<open>int(choice)\<close> or from inside the chosen action, is swallowed by
  \<^verbatim>\<open>except ValueError: pass\<close> and the pass through the loop goes on.\<close>

definition attack_dispatch ::
  "attack_draws \<Rightarrow> PlayerState \<Rightarrow> NetworkNode
     \<Rightarrow> (py_error + loop_ctl \<times> PlayerState \<times> NetworkNode) option" where
  "attack_dispatch d p node =
     (let vl = vulns_list node in
      case choice d of
        None \<Rightarrow> Some (Inr (Next, p, node))
      | Some choice_num \<Rightarrow>
          if 1 \<le> choice_num \<and> choice_num \<le> int (length vl) then
            (let (si, vi) = vl ! nat (choice_num - 1);
                 vuln = vulnerabilities (services node ! si) ! vi
             in if needs_missing_tool p vuln then Some (Inr (Continue, p, node))
                else (case execute_exploit d p node si vi of
                        None \<Rightarrow> None
                      | Some (Inl e) \<Rightarrow>
                          if e = ValueError then Some (Inr (Next, p, node)) else Some (Inl e)
                      | Some (Inr (p', node')) \<Rightarrow> Some (Inr (Next, p', node'))))
          else if choice_num = int (length vl) + 1 then
            (case use_botnet_ddos d p node of
               None \<Rightarrow> None
             | Some (Inl e) \<Rightarrow>
                 if e = ValueError then Some (Inr (Next, p, node)) else Some (Inl e)
             | Some (Inr (p', node')) \<Rightarrow> Some (Inr (Next, p', node')))
          else if choice_num = int (length vl) + 2 then
            Some (Inr (Next, p, clear_traces p node))
          else if choice_num = int (length vl) + 3 then Some (Inr (Break, p, node))
          else Some (Inr (Next, p, node)))"

text \<open>What follows the \<^verbatim>\<open>try\<close> block in the same pass: the trace accrual, the
  administrator's activation and the trace-complete check.\<close>

definition attack_after ::
  "attack_draws \<Rightarrow> PlayerState \<Rightarrow> NetworkNode \<Rightarrow> py_error + loop_ctl \<times> PlayerState \<times> NetworkNode" where
  "attack_after d p node =
     (case accrue_trace p node of
        Inl e \<Rightarrow> Inl e
      | Inr node1 \<Rightarrow>
         (let node2 = (if \<not> admin_active node1 \<and> trace_progress node1 > ADMIN_ACTIVATE_THRESHOLD
                          \<and> admin_roll d < ADMIN_ACTIVATE_CHANCE
                       then node1\<lparr>admin_active := True,
                                  trace_speed := trace_speed node1 * ADMIN_TRACE_MULTIPLIER\<rparr>
                       else node1)
          in if trace_progress node2 \<ge> TRACE_COMPLETE_THRESHOLD
             then Inr (Break, handle_trace_complete d p, node2)
             else Inr (Next, p, node2)))"

text \<open>One pass through the body of the \<^verbatim>\<open>while\<close> loop. The menu shows the success rate of
  every listed exploit, so a \<^verbatim>\<open>KeyError\<close> of \<^verbatim>\<open>calculate_success_rate\<close> surfaces there.\<close>

definition attack_iteration ::
  "attack_draws \<Rightarrow> PlayerState \<Rightarrow> NetworkNode
     \<Rightarrow> (py_error + loop_ctl \<times> PlayerState \<times> NetworkNode) option" where
  "attack_iteration d p node =
     (if discovered_vulns node \<noteq> {} then
        (case filter isl (map (\<lambda>(si, vi).
                 calculate_success_rate p (vulnerabilities (services node ! si) ! vi))
                 (vulns_list node)) of
           Inl e # _ \<Rightarrow> Some (Inl e)
         | _ \<Rightarrow>
           (case attack_dispatch d p node of
              None \<Rightarrow> None
            | Some (Inl e) \<Rightarrow> Some (Inl e)
            | Some (Inr (Next, p', node')) \<Rightarrow> Some (attack_after d p' node')
            | Some (Inr (ctl, p', node')) \<Rightarrow> Some (Inr (ctl, p', node'))))
      else Some (Inr (Break, p, node)))"

partial_function (option) attack_loop ::
  "(nat \<Rightarrow> attack_draws) \<Rightarrow> nat \<Rightarrow> PlayerState \<Rightarrow> NetworkNode
     \<Rightarrow> (py_error + PlayerState \<times> NetworkNode) option" where
  [code]: "attack_loop ds k p node =
     (if firewall_strength node > 0 \<and> trace_progress node < 100 then
        (case attack_iteration (ds k) p node of
           None \<Rightarrow> None
         | Some (Inl e) \<Rightarrow> Some (Inl e)
         | Some (Inr (Break, p', node')) \<Rightarrow> Some (Inr (p', node'))
         | Some (Inr (_, p', node')) \<Rightarrow> attack_loop ds (Suc k) p' node')
      else Some (Inr (p, node)))"

subsection \<open>compromise\_node and attack\_node\<close>

text \<open>The contract loop of \<^verbatim>\<open>compromise_node\<close>.\<close>

fun complete_contracts ::
  "string \<Rightarrow> PlayerState \<Rightarrow> Contract list \<Rightarrow> PlayerState \<times> Contract list" where
  "complete_contracts u p [] = (p, [])"
| "complete_contracts u p (contract # rest) =
     (if target_node_uid contract = u \<and> \<not> completed contract
         \<and> objective contract \<in> set [''steal_data'', ''install_backdoor'', ''sabotage'']
      then (let p1 = p\<lparr>credits := credits p + reward contract\<rparr>;
                p2 = p1\<lparr>reputation := reputation p1 + reputation_change contract\<rparr>;
                r = complete_contracts u p2 rest
            in (fst r, contract\<lparr>completed := True\<rparr> # snd r))
      else (let r = complete_contracts u p rest in (fst r, contract # snd r)))"

definition compromise_node ::
  "(nat \<Rightarrow> int option) \<Rightarrow> PlayerState \<Rightarrow> NetworkNode \<Rightarrow> Contract list
     \<Rightarrow> (py_error + PlayerState \<times> NetworkNode \<times> Contract list) option" where
  "compromise_node inp p node cs =
     (let node1 = node\<lparr>compromised := True\<rparr>;
          p1 = p\<lparr>compromised_nodes := insert (uid node1) (compromised_nodes p)\<rparr>
      in case dict_get (hardware p1) ''Storage'' of
           Inl e \<Rightarrow> Some (Inl e)
         | Inr storage \<Rightarrow>
            (let extracted_value = py_int (of_int (data_value node1) * bonus storage);
                 p2 = p1\<lparr>credits := credits p1 + extracted_value\<rparr>;
                 p3 = p2\<lparr>experience := experience p2 + security_rating node1 * 50\<rparr>;
                 p4 = p3\<lparr>reputation := reputation p3 + security_rating node1 * 10\<rparr>;
                 p5 = p4\<lparr>discovered_nodes := discovered_nodes p4 \<union> set (connections node1)\<rparr>;
                 r = complete_contracts (uid node1) p5 cs
             in map_option (\<lambda>l. Inr (fst l, node1, snd r))
                  (check_level_up inp (fst r))))"

text \<open>\<open>ds\<close> gives the draws of each pass through the loop, \<open>inp\<close> the answers to the level-up
  prompts of \<^verbatim>\<open>compromise_node\<close>.\<close>

definition attack_node ::
  "(nat \<Rightarrow> attack_draws) \<Rightarrow> (nat \<Rightarrow> int option) \<Rightarrow> PlayerState \<Rightarrow> NetworkNode \<Rightarrow> Contract list
     \<Rightarrow> (py_error + PlayerState \<times> NetworkNode \<times> Contract list) option" where
  "attack_node ds inp p node cs =
     (if compromised node \<and> \<not> backdoor_installed node then Some (Inr (p, node, cs))
      else case attack_loop ds 0 p node of
             None \<Rightarrow> None
           | Some (Inl e) \<Rightarrow> Some (Inl e)
           | Some (Inr (p', node')) \<Rightarrow>
               if firewall_strength node' \<le> 0 then compromise_node inp p' node' cs
               else Some (Inr (p', node', cs)))"

subsection \<open>Operations outside the attack session that touch a node\<close>

text \<open>\<^verbatim>\<open>random.choice(xs)\<close> with the position drawn.\<close>

definition random_choice :: "'a list \<Rightarrow> nat \<Rightarrow> 'a" where
  "random_choice xs pick = xs ! (pick mod length xs)"

record rival_draws =
  activity_roll :: rat
  target_pick :: nat
  seen_now :: datetime
  compromise_roll :: rat

text \<open>The body of the loop of \<^verbatim>\<open>update_rival_activity\<close> for one rival. The nodes are the
  values of \<^verbatim>\<open>network.nodes\<close> in dict order; the target is kept as its position, since the
  source mutates that object.\<close>

definition rival_turn ::
  "rival_draws \<Rightarrow> RivalHacker \<Rightarrow> NetworkNode list \<Rightarrow> RivalHacker \<times> NetworkNode list" where
  "rival_turn d rival ns =
     (if activity_roll d < RIVAL_ACTIVITY_CHANCE then
        (let available_nodes = filter (\<lambda>i. \<not> compromised (ns ! i)
                                    \<and> security_rating (ns ! i) \<le> skill_level rival + 2)
                                  [0..<length ns]
         in if available_nodes \<noteq> [] then
              (let ti = random_choice available_nodes (target_pick d);
                   target = ns ! ti;
                   rival1 = rival\<lparr>active_targets := active_targets rival @ [uid target]\<rparr>;
                   rival2 = rival1\<lparr>last_seen := seen_now d\<rparr>
               in if compromise_roll d < RIVAL_COMPROMISE_CHANCE
                  then (rival2, ns[ti := target\<lparr>compromised := True\<rparr>])
                  else (rival2, ns))
            else (rival, ns))
      else (rival, ns))"

fun update_rival_activity ::
  "rival_draws list \<Rightarrow> RivalHacker list \<Rightarrow> NetworkNode list \<Rightarrow> RivalHacker list \<times> NetworkNode list" where
  "update_rival_activity (d # ds) (rival # rivals) ns =
     (let r = rival_turn d rival ns;
          rest = update_rival_activity ds rivals (snd r)
      in (fst r # fst rest, snd rest))"
| "update_rival_activity ds rivals ns = (rivals, ns)"

record phishing_draws =
  victim_pick :: nat
  phishing_roll :: rat
  phishing_level_inputs :: "nat \<Rightarrow> int option"

definition phishing_campaign ::
  "phishing_draws \<Rightarrow> PlayerState \<Rightarrow> NetworkNode \<Rightarrow> (PlayerState \<times> NetworkNode) option" where
  "phishing_campaign d p node =
     (if employees node = [] then Some (p, node)
      else
        (let targets = filter (\<lambda>i. \<not> emp_compromised (employees node ! i))
                         [0..<length (employees node)]
         in if targets = [] then Some (p, node)
            else
              (let ti = random_choice targets (victim_pick d);
                   target = employees node ! ti;
                   success_rate = phishing_susceptibility target
                     + of_int (social_engineering (skills p)) * PHISHING_SKILL_BONUS
               in if phishing_roll d < success_rate then
                    (let node1 = node\<lparr>employees :=
                                   (employees node)[ti := target\<lparr>emp_compromised := True\<rparr>]\<rparr>;
                         damage = access_level target * 30;
                         node2 = node1\<lparr>firewall_strength := firewall_strength node1 - damage\<rparr>;
                         node3 = node2\<lparr>trace_progress := trace_progress node2 + PHISHING_SUCCESS_TRACE\<rparr>;
                         p1 = p\<lparr>experience := experience p + access_level target * 15\<rparr>
                     in map_option (\<lambda>l. (fst l, node3))
                          (check_level_up (phishing_level_inputs d) p1))
                  else
                    Some (p\<lparr>heat_level := heat_level p + PHISHING_FAIL_HEAT\<rparr>,
                          node\<lparr>trace_progress := trace_progress node + PHISHING_FAIL_TRACE\<rparr>))))"

subsection \<open>GameState\<close>

record MarketExploit =
  mx_name :: string
  mx_type :: string
  mx_cost :: int
  mx_effectiveness :: rat
  level_req :: int

record GameState =
  player :: PlayerState
  nodes :: "(string \<times> NetworkNode) list"
  seed :: int
  contracts :: "Contract list"
  event_log :: "string list"
  black_market_tools :: "Tool list"
  black_market_exploits :: "MarketExploit list"
  black_market_hardware :: "HardwareComponent list"
  rival_hackers :: "RivalHacker list"

text \<open>\<^verbatim>\<open>d[k] = v\<close>: an existing key keeps its place, a new key goes last.\<close>

fun dict_set :: "('k \<times> 'v) list \<Rightarrow> 'k \<Rightarrow> 'v \<Rightarrow> ('k \<times> 'v) list" where
  "dict_set [] k v = [(k, v)]"
| "dict_set ((k', v') # d) k v = (if k' = k then (k, v) # d else (k', v') # dict_set d k v)"

text \<open>\<^verbatim>\<open>generate_network\<close> stores every node it created under its uid:
  \<^verbatim>\<open>self.nodes[node.uid] = node\<close>. The nodes themselves are random; they are the argument.\<close>

definition network_nodes :: "NetworkNode list \<Rightarrow> (string \<times> NetworkNode) list" where
  "network_nodes all_nodes = fold (\<lambda>node d. dict_set d (uid node) node) all_nodes []"

definition generate_tools :: "Tool list" where
  "generate_tools = [
     \<lparr>tool_name = ''PortScanner Pro'', tool_type = SCANNER, tool_cost = 500, effectiveness = 15 / 10,
       tool_description = ''Advanced network scanner with stealth mode'', level_requirement = 1,
       stealth_penalty = 0\<rparr>,
     \<lparr>tool_name = ''MassiveMap'', tool_type = SCANNER, tool_cost = 1500, effectiveness = 2,
       tool_description = ''Ultra-fast network mapper'', level_requirement = 3,
       stealth_penalty = 1 / 10\<rparr>,
     \<lparr>tool_name = ''ExploitKit v3'', tool_type = EXPLOIT_FRAMEWORK, tool_cost = 2000,
       effectiveness = 18 / 10, tool_description = ''Automated exploitation framework'',
       level_requirement = 2, stealth_penalty = 2 / 10\<rparr>,
     \<lparr>tool_name = ''MetaSploit Pro'', tool_type = EXPLOIT_FRAMEWORK, tool_cost = 5000,
       effectiveness = 25 / 10, tool_description = ''Professional penetration testing suite'',
       level_requirement = 5, stealth_penalty = 15 / 100\<rparr>,
     \<lparr>tool_name = ''ProxyChain Advanced'', tool_type = PROXY_CHAIN, tool_cost = 1000,
       effectiveness = 1, tool_description = ''Multi-hop proxy network'', level_requirement = 2,
       stealth_penalty = - (3 / 10)\<rparr>,
     \<lparr>tool_name = ''TOR Router Pro'', tool_type = PROXY_CHAIN, tool_cost = 3000,
       effectiveness = 1, tool_description = ''Enhanced anonymity routing'', level_requirement = 4,
       stealth_penalty = - (5 / 10)\<rparr>,
     \<lparr>tool_name = ''CryptoBreaker'', tool_type = CRYPTANALYSIS, tool_cost = 4000,
       effectiveness = 2, tool_description = ''Advanced cryptanalysis tool'', level_requirement = 4,
       stealth_penalty = 1 / 10\<rparr>,
     \<lparr>tool_name = ''QuantumCrack'', tool_type = CRYPTANALYSIS, tool_cost = 10000,
       effectiveness = 3, tool_description = ''Quantum-assisted decryption'', level_requirement = 7,
       stealth_penalty = 2 / 10\<rparr>,
     \<lparr>tool_name = ''BotCommander'', tool_type = BOTNET_CONTROLLER, tool_cost = 3000,
       effectiveness = 15 / 10, tool_description = ''Manage distributed botnets'',
       level_requirement = 3, stealth_penalty = 3 / 10\<rparr>,
     \<lparr>tool_name = ''StealthLogger'', tool_type = KEYLOGGER, tool_cost = 1500,
       effectiveness = 13 / 10, tool_description = ''Undetectable keylogging software'',
       level_requirement = 2, stealth_penalty = 0\<rparr>,
     \<lparr>tool_name = ''DeepRootkit'', tool_type = ROOTKIT, tool_cost = 5000, effectiveness = 2,
       tool_description = ''Persistent system-level access'', level_requirement = 5,
       stealth_penalty = 1 / 10\<rparr>]"

definition basic_processor :: HardwareComponent where
  "basic_processor = \<lparr>hw_name = ''Basic Processor'', htype = CPU, hw_level = 1, hw_cost = 0,
     bonus = 1, hw_description = ''Standard 4-core CPU''\<rparr>"

definition memory_8gb :: HardwareComponent where
  "memory_8gb = \<lparr>hw_name = ''8GB Memory'', htype = RAM, hw_level = 1, hw_cost = 0, bonus = 1,
     hw_description = ''Standard DDR3 RAM''\<rparr>"

definition hdd_500gb :: HardwareComponent where
  "hdd_500gb = \<lparr>hw_name = ''500GB HDD'', htype = STORAGE, hw_level = 1, hw_cost = 0, bonus = 1,
     hw_description = ''Mechanical hard drive''\<rparr>"

definition stock_cooler :: HardwareComponent where
  "stock_cooler = \<lparr>hw_name = ''Stock Cooler'', htype = COOLING, hw_level = 1, hw_cost = 0,
     bonus = 1, hw_description = ''Basic air cooling''\<rparr>"

definition initial_hardware :: "(string \<times> HardwareComponent) list" where
  "initial_hardware = [(''CPU'', basic_processor), (''RAM'', memory_8gb),
     (''Storage'', hdd_500gb), (''Cooling'', stock_cooler)]"

definition initial_factions :: "(string \<times> Faction) list" where
  "initial_factions = [
     (''White Hat Alliance'', \<lparr>faction_name = ''White Hat Alliance'', faction_reputation = 0,
        faction_hostile = False\<rparr>),
     (''Black Hat Syndicate'', \<lparr>faction_name = ''Black Hat Syndicate'', faction_reputation = 0,
        faction_hostile = False\<rparr>),
     (''Grey Market Traders'', \<lparr>faction_name = ''Grey Market Traders'', faction_reputation = 0,
        faction_hostile = False\<rparr>),
     (''Corporate Security'', \<lparr>faction_name = ''Corporate Security'', faction_reputation = - 20,
        faction_hostile = True\<rparr>),
     (''Law Enforcement'', \<lparr>faction_name = ''Law Enforcement'', faction_reputation = - 50,
        faction_hostile = True\<rparr>)]"

definition default_skills :: PlayerSkills where
  "default_skills = \<lparr>scanning = 1, exploitation = 1, stealth = 1, cryptanalysis = 1,
     social_engineering = 1, reverse_engineering = 1, botnet_management = 1\<rparr>"

text \<open>The player that \<^verbatim>\<open>GameState.__init__\<close> builds, with its hardware and factions; \<open>now\<close> is
  \<^verbatim>\<open>datetime.now()\<close>.\<close>

definition initial_player :: "datetime \<Rightarrow> PlayerState" where
  "initial_player now = \<lparr>handle = ''ghost'', level = STARTING_LEVEL, experience = 0,
     credits = STARTING_CREDITS, reputation = 0, heat_level = 0, skills = default_skills,
     discovered_nodes = {}, compromised_nodes = {}, current_location = [], inventory = [],
     active_contracts = [], completed_contracts = {}, game_time = now, total_playtime = 0,
     botnets = [], factions = initial_factions, identity_heat = 0, known_exploits = {},
     proxy_chains = 0, safe_houses = [], under_investigation = False,
     investigation_progress = 0, hardware = initial_hardware, active_events = [],
     bounced_nodes = []\<rparr>"

text \<open>What \<^verbatim>\<open>GameState.__init__\<close> draws: the generated network, the rivals, the position of the
  start node among the entry nodes, the contracts and the market lists.\<close>

record init_draws =
  init_now :: datetime
  init_seed :: int
  init_nodes :: "NetworkNode list"
  init_rivals :: "RivalHacker list"
  start_pick :: nat
  init_contracts :: "Contract list"
  init_exploits :: "MarketExploit list"
  init_hardware :: "HardwareComponent list"

definition GameState_init :: "init_draws \<Rightarrow> GameState" where
  "GameState_init d =
     (let p = initial_player (init_now d);
          net = network_nodes (init_nodes d);
          entry_nodes = filter (\<lambda>n. security_rating n \<le> 2) (map snd net);
          p' = (if entry_nodes \<noteq> [] then
                  (let start_node = random_choice entry_nodes (start_pick d);
                       p1 = p\<lparr>current_location := uid start_node\<rparr>
                   in p1\<lparr>discovered_nodes := insert (uid start_node) (discovered_nodes p1)\<rparr>)
                else p)
      in \<lparr>player = p', nodes = net, seed = init_seed d, contracts = init_contracts d,
          event_log = [], black_market_tools = generate_tools,
          black_market_exploits = init_exploits d, black_market_hardware = init_hardware d,
          rival_hackers = init_rivals d\<rparr>)"

text \<open>Choice 2 of \<^verbatim>\<open>network_menu\<close>: \<^verbatim>\<open>attack_node\<close> on the node of the current location. The
  node object is mutated in place, so it is stored back under the key it was read from.\<close>

definition network_attack ::
  "(nat \<Rightarrow> attack_draws) \<Rightarrow> (nat \<Rightarrow> int option) \<Rightarrow> GameState \<Rightarrow> (py_error + GameState) option" where
  "network_attack ds inp s =
     (case dict_get (nodes s) (current_location (player s)) of
        Inl e \<Rightarrow> Some (Inl e)
      | Inr current_node \<Rightarrow>
         (case attack_node ds inp (player s) current_node (contracts s) of
            None \<Rightarrow> None
          | Some (Inl e) \<Rightarrow> Some (Inl e)
          | Some (Inr (p', node', cs')) \<Rightarrow>
              Some (Inr (s\<lparr>player := p',
                           nodes := dict_set (nodes s) (current_location (player s)) node',
                           contracts := cs'\<rparr>))))"

text \<open>\<^verbatim>\<open>navigate_network\<close>: the list \<^verbatim>\<open>available\<close> is built with \<^verbatim>\<open>nodes[conn_uid]\<close>, a
  \<^verbatim>\<open>KeyError\<close> for a connection that is no key of the network.\<close>

fun available_nodes_of ::
  "(string \<times> NetworkNode) list \<Rightarrow> string set \<Rightarrow> string list \<Rightarrow> py_error + NetworkNode list" where
  "available_nodes_of ns disc [] = Inr []"
| "available_nodes_of ns disc (conn_uid # rest) =
     (if conn_uid \<in> disc then
        (case dict_get ns conn_uid of
           Inl e \<Rightarrow> Inl e
         | Inr conn_node \<Rightarrow>
            (case available_nodes_of ns disc rest of
               Inl e \<Rightarrow> Inl e
             | Inr av \<Rightarrow> Inr (conn_node # av)))
      else available_nodes_of ns disc rest)"

definition navigate_network :: "int option \<Rightarrow> GameState \<Rightarrow> py_error + GameState" where
  "navigate_network ch s =
     (case dict_get (nodes s) (current_location (player s)) of
        Inl e \<Rightarrow> Inl e
      | Inr current_node \<Rightarrow>
         if connections current_node = [] then Inr s
         else (case available_nodes_of (nodes s) (discovered_nodes (player s))
                      (connections current_node) of
                 Inl e \<Rightarrow> Inl e
               | Inr available \<Rightarrow>
                  if available = [] then Inr s
                  else (case ch of
                          None \<Rightarrow> Inr s
                        | Some c \<Rightarrow>
                           (let idx = c - 1 in
                            if 0 \<le> idx \<and> idx < int (length available)
                            then Inr (s\<lparr>player := (player s)
                                     \<lparr>current_location := uid (available ! nat idx)\<rparr>\<rparr>)
                            else Inr s))))"

text \<open>\<^verbatim>\<open>discover_nodes\<close>: \<open>rolls\<close> holds one \<^verbatim>\<open>random.random()\<close> per connection.\<close>

fun discover_loop ::
  "(string \<times> NetworkNode) list \<Rightarrow> rat list \<Rightarrow> string list \<Rightarrow> PlayerState \<Rightarrow> py_error + PlayerState" where
  "discover_loop ns (roll # rolls) (conn_uid # rest) p =
     (if conn_uid \<notin> discovered_nodes p then
        (if roll < 5 / 10 + of_int (scanning (skills p)) * (1 / 10) then
           (let p' = p\<lparr>discovered_nodes := insert conn_uid (discovered_nodes p)\<rparr>
            in case dict_get ns conn_uid of
                 Inl e \<Rightarrow> Inl e
               | Inr conn_node \<Rightarrow> discover_loop ns rolls rest p')
         else discover_loop ns rolls rest p)
      else discover_loop ns rolls rest p)"
| "discover_loop ns rolls conns p = Inr p"

definition discover_nodes :: "rat list \<Rightarrow> GameState \<Rightarrow> py_error + GameState" where
  "discover_nodes rolls s =
     (case dict_get (nodes s) (current_location (player s)) of
        Inl e \<Rightarrow> Inl e
      | Inr current_node \<Rightarrow>
         (case discover_loop (nodes s) rolls (connections current_node) (player s) of
            Inl e \<Rightarrow> Inl e
          | Inr p' \<Rightarrow> Inr (s\<lparr>player := p'\<rparr>)))"

text \<open>Accepting a contract in \<^verbatim>\<open>contract_menu\<close>; \<open>accept\<close> says whether the answer was
  \<^verbatim>\<open>y\<close>. The refresh of the board before it is not part of this function.\<close>

definition accept_contract :: "int option \<Rightarrow> bool \<Rightarrow> GameState \<Rightarrow> py_error + GameState" where
  "accept_contract ch accept s =
     (let active = filter (\<lambda>c. \<not> completed c \<and> \<not> failed c) (contracts s) in
      case ch of
        None \<Rightarrow> Inr s
      | Some c \<Rightarrow>
         (let idx = c - 1 in
          if 0 \<le> idx \<and> idx < int (length active) then
            (let contract = active ! nat idx in
             case dict_get (nodes s) (target_node_uid contract) of
               Inl e \<Rightarrow> Inl e
             | Inr target \<Rightarrow>
                if accept then
                  (let p = player s;
                       p1 = (if contract_uid contract \<notin> set (active_contracts p)
                             then p\<lparr>active_contracts := active_contracts p @ [contract_uid contract]\<rparr>
                             else p);
                       p2 = p1\<lparr>discovered_nodes :=
                                 insert (target_node_uid contract) (discovered_nodes p1)\<rparr>;
                       p3 = (case contract_faction contract of
                               None \<Rightarrow> p2
                             | Some f \<Rightarrow>
                                (case map_of (factions p2) f of
                                   None \<Rightarrow> p2
                                 | Some fac \<Rightarrow>
                                    if f \<noteq> [] then
                                      p2\<lparr>factions := dict_set (factions p2) f
                                         (fac\<lparr>faction_reputation := faction_reputation fac + 5\<rparr>)\<rparr>
                                    else p2))
                   in Inr (s\<lparr>player := p3\<rparr>))
                else Inr s)
          else Inr s))"

subsection \<open>Operations that change the player's credits\<close>

text \<open>\<^verbatim>\<open>build_botnet\<close>; \<open>size_draw\<close> is \<^verbatim>\<open>random.randint(50, 200)\<close>.\<close>

definition build_botnet :: "int \<Rightarrow> PlayerState \<Rightarrow> PlayerState" where
  "build_botnet size_draw p =
     (let cost = BOTNET_BUILD_COST in
      if credits p < cost then p
      else
        (let size = size_draw + botnet_management (skills p) * BOTNET_SIZE_PER_SKILL;
             q = BOTNET_BASE_QUALITY
                   + of_int (botnet_management (skills p)) * BOTNET_QUALITY_PER_SKILL;
             power = py_int (of_int size * q * (1 / 2));
             maintenance = size * 2;
             botnet = \<lparr>botnet_size = size, quality = q, maintenance_cost = maintenance,
                        ddos_power = power, detected_nodes = 0\<rparr>;
             p1 = p\<lparr>botnets := botnets p @ [botnet]\<rparr>
         in p1\<lparr>credits := credits p1 - cost\<rparr>))"

definition maintain_botnet :: "int option \<Rightarrow> PlayerState \<Rightarrow> PlayerState" where
  "maintain_botnet ch p =
     (if botnets p = [] then p
      else case ch of
        None \<Rightarrow> p
      | Some c \<Rightarrow>
         (let idx = c - 1 in
          if 0 \<le> idx \<and> idx < int (length (botnets p)) then
            (let botnet = botnets p ! nat idx in
             if credits p < maintenance_cost botnet then p
             else
               (let p1 = p\<lparr>credits := credits p - maintenance_cost botnet\<rparr>;
                    b1 = botnet\<lparr>detected_nodes := max 0 (detected_nodes botnet
                           - py_int (of_int (botnet_size botnet) * (3 / 10)))\<rparr>;
                    b2 = b1\<lparr>quality := min 1 (quality b1 + 5 / 100)\<rparr>
                in p1\<lparr>botnets := (botnets p1)[nat idx := b2]\<rparr>))
          else p))"

definition expand_botnet :: "int option \<Rightarrow> int \<Rightarrow> PlayerState \<Rightarrow> PlayerState" where
  "expand_botnet ch new_nodes_draw p =
     (if botnets p = [] then p
      else case ch of
        None \<Rightarrow> p
      | Some c \<Rightarrow>
         (let idx = c - 1 in
          if 0 \<le> idx \<and> idx < int (length (botnets p)) then
            (let botnet = botnets p ! nat idx;
                 expansion_cost = botnet_size botnet * 10
             in if credits p < expansion_cost then p
                else
                  (let new_nodes = new_nodes_draw + botnet_management (skills p) * 5;
                       b1 = botnet\<lparr>botnet_size := botnet_size botnet + new_nodes\<rparr>;
                       b2 = b1\<lparr>ddos_power :=
                                py_int (of_int (botnet_size b1) * quality b1 * (1 / 2))\<rparr>;
                       b3 = b2\<lparr>maintenance_cost := botnet_size b2 * 2\<rparr>;
                       p1 = p\<lparr>botnets := (botnets p)[nat idx := b3]\<rparr>
                   in p1\<lparr>credits := credits p1 - expansion_cost\<rparr>))
          else p))"

definition browse_tools :: "int option \<Rightarrow> Tool list \<Rightarrow> PlayerState \<Rightarrow> PlayerState" where
  "browse_tools ch market p =
     (case ch of
        None \<Rightarrow> p
      | Some c \<Rightarrow>
         (let idx = c - 1 in
          if 0 \<le> idx \<and> idx < int (length market) then
            (let tool = market ! nat idx in
             if tool \<in> set (inventory p) then p
             else if level_requirement tool > level p then p
             else if credits p < tool_cost tool then p
             else (let p1 = p\<lparr>credits := credits p - tool_cost tool\<rparr>
                   in p1\<lparr>inventory := inventory p1 @ [tool]\<rparr>))
          else p))"

definition browse_exploits :: "int option \<Rightarrow> MarketExploit list \<Rightarrow> PlayerState \<Rightarrow> PlayerState" where
  "browse_exploits ch market p =
     (case ch of
        None \<Rightarrow> p
      | Some c \<Rightarrow>
         (let idx = c - 1 in
          if 0 \<le> idx \<and> idx < int (length market) then
            (let exploit = market ! nat idx in
             if mx_name exploit \<in> known_exploits p then p
             else if level_req exploit > level p then p
             else if credits p < mx_cost exploit then p
             else (let p1 = p\<lparr>credits := credits p - mx_cost exploit\<rparr>
                   in p1\<lparr>known_exploits := insert (mx_name exploit) (known_exploits p1)\<rparr>))
          else p))"

text \<open>\<^verbatim>\<open>item.htype.name.capitalize()\<close>: the member's name with only its first letter in
  upper case.\<close>

fun hardware_key :: "HardwareType \<Rightarrow> string" where
  "hardware_key CPU = ''Cpu''"
| "hardware_key RAM = ''Ram''"
| "hardware_key STORAGE = ''Storage''"
| "hardware_key COOLING = ''Cooling''"

definition browse_hardware ::
  "int option \<Rightarrow> HardwareComponent list \<Rightarrow> PlayerState \<Rightarrow> PlayerState" where
  "browse_hardware ch market p =
     (case ch of
        None \<Rightarrow> p
      | Some c \<Rightarrow>
         (let idx = c - 1 in
          if 0 \<le> idx \<and> idx < int (length market) then
            (let item = market ! nat idx;
                 key = hardware_key (htype item)
             in if (case map_of (hardware p) key of
                      None \<Rightarrow> False
                    | Some cur \<Rightarrow> hw_name cur = hw_name item) then p
                else if hw_level item > level p then p
                else if credits p < hw_cost item then p
                else (let p1 = p\<lparr>credits := credits p - hw_cost item\<rparr>
                      in p1\<lparr>hardware := dict_set (hardware p1) key item\<rparr>))
          else p))"

text \<open>\<^verbatim>\<open>purchase_proxy\<close> and \<^verbatim>\<open>launder_money_menu\<close>; \<open>yes\<close> says whether the answer was
  \<^verbatim>\<open>y\<close>.\<close>

definition purchase_proxy :: "bool \<Rightarrow> PlayerState \<Rightarrow> PlayerState" where
  "purchase_proxy yes p =
     (let cost = PROXY_BASE_COST + proxy_chains p * PROXY_COST_INCREMENT in
      if credits p < cost then p
      else if yes then
        (let p1 = p\<lparr>credits := credits p - cost\<rparr>
         in p1\<lparr>proxy_chains := proxy_chains p1 + 1\<rparr>)
      else p)"

definition launder_money_menu :: "bool \<Rightarrow> PlayerState \<Rightarrow> PlayerState" where
  "launder_money_menu yes p =
     (let cost = LAUNDER_COST in
      if yes then
        (if credits p < cost then p
         else
           (let p1 = p\<lparr>credits := credits p - cost\<rparr>;
                p2 = p1\<lparr>identity_heat := max 0 (identity_heat p1 - LAUNDER_IDENTITY_REDUCTION)\<rparr>
            in p2\<lparr>investigation_progress :=
                    max 0 (investigation_progress p2 - LAUNDER_INVESTIGATION_REDUCTION)\<rparr>))
      else p)"

text \<open>\<^verbatim>\<open>sell_data\<close>: \<open>order\<close> is the order in which the set \<^verbatim>\<open>compromised_nodes\<close> is
  iterated; a node is stored back under the key it was read from.\<close>

fun lookup_all ::
  "(string \<times> NetworkNode) list \<Rightarrow> string list \<Rightarrow> py_error + (string \<times> NetworkNode) list" where
  "lookup_all ns [] = Inr []"
| "lookup_all ns (u # us) =
     (case dict_get ns u of
        Inl e \<Rightarrow> Inl e
      | Inr n \<Rightarrow> (case lookup_all ns us of Inl e \<Rightarrow> Inl e | Inr r \<Rightarrow> Inr ((u, n) # r)))"

definition sell_data :: "string list \<Rightarrow> int option \<Rightarrow> GameState \<Rightarrow> py_error + GameState" where
  "sell_data order ch s =
     (case lookup_all (nodes s) order of
        Inl e \<Rightarrow> Inl e
      | Inr compromised_list \<Rightarrow>
         if compromised_list = [] then Inr s
         else
           (let sellable = filter (\<lambda>kn. data_value (snd kn) > 0) compromised_list in
            if sellable = [] then Inr s
            else case ch of
              None \<Rightarrow> Inr s
            | Some c \<Rightarrow>
               (let idx = c - 1 in
                if 0 \<le> idx \<and> idx < int (length sellable) then
                  (let key = fst (sellable ! nat idx);
                       node = snd (sellable ! nat idx);
                       v = data_value node;
                       p = player s;
                       p1 = p\<lparr>credits := credits p + v\<rparr>;
                       p2 = p1\<lparr>reputation := reputation p1 + 5\<rparr>;
                       p3 = p2\<lparr>heat_level := heat_level p2 + 3\<rparr>
                   in Inr (s\<lparr>player := p3,
                              nodes := dict_set (nodes s) key (node\<lparr>data_value := 0\<rparr>)\<rparr>))
                else Inr s)))"

text \<open>\<^verbatim>\<open>hack_rival_menu\<close>: the index is checked against 5, not against the number of rivals;
  the \<^verbatim>\<open>IndexError\<close> is swallowed by the bare \<^verbatim>\<open>except\<close>.\<close>

definition hack_rival_menu :: "int option \<Rightarrow> rat \<Rightarrow> GameState \<Rightarrow> GameState" where
  "hack_rival_menu ch roll s =
     (case ch of
        None \<Rightarrow> s
      | Some c \<Rightarrow>
         (let idx = c - 1 in
          if 0 \<le> idx \<and> idx < 5 then
            (if nat idx < length (rival_hackers s) then
               (let rival = rival_hackers s ! nat idx;
                    p = player s;
                    success_rate = RIVAL_HACK_BASE_SUCCESS
                      + of_int (exploitation (skills p)) * SKILL_SUCCESS_BONUS
                      - of_int (skill_level rival) * (4 / 100);
                    rival' = rival\<lparr>rival_hostile := True\<rparr>;
                    p' = (if roll < success_rate
                          then p\<lparr>credits := credits p + skill_level rival * 500\<rparr>
                          else p\<lparr>heat_level := heat_level p + 10\<rparr>)
                in s\<lparr>player := p', rival_hackers := (rival_hackers s)[nat idx := rival']\<rparr>)
             else s)
          else s))"

text \<open>\<^verbatim>\<open>crack_encryption\<close> on a node.\<close>

definition crack_encryption ::
  "int option \<Rightarrow> rat \<Rightarrow> (nat \<Rightarrow> int option) \<Rightarrow> PlayerState \<Rightarrow> NetworkNode
     \<Rightarrow> (PlayerState \<times> NetworkNode) option" where
  "crack_encryption ch roll inp p node =
     (if encrypted_traffic node = [] then Some (p, node)
      else
        (let uncracked = filter (\<lambda>i. \<not> cracked (encrypted_traffic node ! i))
                           [0..<length (encrypted_traffic node)]
         in if uncracked = [] then Some (p, node)
            else case ch of
              None \<Rightarrow> Some (p, node)
            | Some c \<Rightarrow>
               (let idx = c - 1 in
                if 0 \<le> idx \<and> idx < int (length uncracked) then
                  (let di = uncracked ! nat idx;
                       data = encrypted_traffic node ! di;
                       success_rate = fold (\<lambda>tool acc. if tool_type tool = CRYPTANALYSIS
                                              then acc + effectiveness tool * (15 / 100) else acc)
                                        (inventory p)
                                        (4 / 10 + of_int (cryptanalysis (skills p)) * (8 / 100)
                                           - enc_difficulty data * (3 / 10))
                   in if roll < success_rate then
                        (let node' = node\<lparr>encrypted_traffic :=
                                       (encrypted_traffic node)[di := data\<lparr>cracked := True\<rparr>]\<rparr>;
                             p1 = p\<lparr>credits := credits p + enc_value data\<rparr>;
                             p2 = p1\<lparr>experience := experience p1
                                                     + py_int (enc_difficulty data * 50)\<rparr>
                         in map_option (\<lambda>l. (fst l, node')) (check_level_up inp p2))
                      else Some (p, node))
                else Some (p, node))))"

subsection \<open>Persistence: the nodes of a save file\<close>

text \<open>The values that \<^verbatim>\<open>asdict\<close>, \<^verbatim>\<open>deep_convert\<close> and \<^verbatim>\<open>json\<close> handle. A set is listed in
  sorted order where Python leaves the order open. \<open>PEnum\<close> carries the member's
  \<^verbatim>\<open>.value\<close>.\<close>

datatype pyval =
    PNone
  | PBool bool
  | PInt int
  | PFloat rat
  | PStr string
  | PList "pyval list"
  | PTuple "pyval list"
  | PIntSet "int set"
  | PStrSet "string set"
  | PDict "(string \<times> pyval) list"
  | PEnum string
  | PDatetime datetime

fun NetworkType_value :: "NetworkType \<Rightarrow> string" where
  "NetworkType_value CORPORATE = ''corporate''"
| "NetworkType_value GOVERNMENT = ''government''"
| "NetworkType_value FINANCIAL = ''financial''"
| "NetworkType_value RESEARCH = ''research''"
| "NetworkType_value CRIMINAL = ''criminal''"
| "NetworkType_value MILITARY = ''military''"
| "NetworkType_value INFRASTRUCTURE = ''infrastructure''"

fun ExploitType_value :: "ExploitType \<Rightarrow> string" where
  "ExploitType_value SQL_INJECTION = ''sql_injection''"
| "ExploitType_value BUFFER_OVERFLOW = ''buffer_overflow''"
| "ExploitType_value XSS = ''cross_site_scripting''"
| "ExploitType_value RCE = ''remote_code_execution''"
| "ExploitType_value PRIVILEGE_ESCALATION = ''privilege_escalation''"
| "ExploitType_value ZERO_DAY = ''zero_day''"
| "ExploitType_value SOCIAL_ENGINEERING = ''social_engineering''"
| "ExploitType_value MAN_IN_MIDDLE = ''man_in_the_middle''"
| "ExploitType_value PHISHING = ''phishing''"
| "ExploitType_value SUPPLY_CHAIN = ''supply_chain''"
| "ExploitType_value CRYPTOGRAPHIC = ''cryptographic_weakness''"

fun EncryptionType_value :: "EncryptionType \<Rightarrow> string" where
  "EncryptionType_value AES_128 = ''aes_128''"
| "EncryptionType_value AES_256 = ''aes_256''"
| "EncryptionType_value RSA_1024 = ''rsa_1024''"
| "EncryptionType_value RSA_2048 = ''rsa_2048''"
| "EncryptionType_value RSA_4096 = ''rsa_4096''"
| "EncryptionType_value WEAK_HASH = ''weak_hash''"

text \<open>\<^verbatim>\<open>EnumClass(value)\<close>: the member with that value, or a \<^verbatim>\<open>ValueError\<close>.\<close>

definition enum_of_value :: "('e \<Rightarrow> string) \<Rightarrow> 'e list \<Rightarrow> string \<Rightarrow> py_error + 'e" where
  "enum_of_value value_of members v =
     (case filter (\<lambda>m. value_of m = v) members of [] \<Rightarrow> Inl ValueError | m # _ \<Rightarrow> Inr m)"

definition NetworkType_of :: "string \<Rightarrow> py_error + NetworkType" where
  "NetworkType_of = enum_of_value NetworkType_value
     [CORPORATE, GOVERNMENT, FINANCIAL, RESEARCH, CRIMINAL, MILITARY, INFRASTRUCTURE]"

definition ExploitType_of :: "string \<Rightarrow> py_error + ExploitType" where
  "ExploitType_of = enum_of_value ExploitType_value
     [SQL_INJECTION, BUFFER_OVERFLOW, XSS, RCE, PRIVILEGE_ESCALATION, ZERO_DAY,
      SOCIAL_ENGINEERING, MAN_IN_MIDDLE, PHISHING, SUPPLY_CHAIN, CRYPTOGRAPHIC]"

definition EncryptionType_of :: "string \<Rightarrow> py_error + EncryptionType" where
  "EncryptionType_of = enum_of_value EncryptionType_value
     [AES_128, AES_256, RSA_1024, RSA_2048, RSA_4096, WEAK_HASH]"

subsubsection \<open>asdict\<close>

text \<open>\<^verbatim>\<open>dataclasses.asdict\<close> turns a dataclass into a dict of its fields, recursing into
  dataclasses, lists, tuples and dicts, and copies every other value: a tuple stays a tuple,
  a set a set, an Enum member an Enum member.\<close>

definition asdict_opt :: "('a \<Rightarrow> pyval) \<Rightarrow> 'a option \<Rightarrow> pyval" where
  "asdict_opt f x = (case x of None \<Rightarrow> PNone | Some v \<Rightarrow> f v)"

fun asdict_int_seq :: "int_seq \<Rightarrow> pyval" where
  "asdict_int_seq (PyTuple xs) = PTuple (map PInt xs)"
| "asdict_int_seq (PyList xs) = PList (map PInt xs)"

definition asdict_Vulnerability :: "Vulnerability \<Rightarrow> pyval" where
  "asdict_Vulnerability v = PDict [
     (''name'', PStr (vuln_name v)),
     (''exploit_type'', PEnum (ExploitType_value (exploit_type v))),
     (''severity'', PFloat (severity v)),
     (''patch_level'', PInt (patch_level v)),
     (''discovery_difficulty'', PFloat (discovery_difficulty v)),
     (''firewall_damage'', asdict_int_seq (firewall_damage v)),
     (''trace_cost'', PInt (trace_cost v)),
     (''success_rate_base'', PFloat (success_rate_base v)),
     (''requires_tool'', asdict_opt PStr (requires_tool v))]"

definition asdict_EncryptedData :: "EncryptedData \<Rightarrow> pyval" where
  "asdict_EncryptedData e = PDict [
     (''encryption_type'', PEnum (EncryptionType_value (encryption_type e))),
     (''data_size'', PInt (data_size e)),
     (''value'', PInt (enc_value e)),
     (''difficulty'', PFloat (enc_difficulty e)),
     (''cracked'', PBool (cracked e))]"

definition asdict_Employee :: "Employee \<Rightarrow> pyval" where
  "asdict_Employee e = PDict [
     (''name'', PStr (emp_name e)),
     (''email'', PStr (email e)),
     (''department'', PStr (department e)),
     (''access_level'', PInt (access_level e)),
     (''social_media_activity'', PFloat (social_media_activity e)),
     (''phishing_susceptibility'', PFloat (phishing_susceptibility e)),
     (''compromised'', PBool (emp_compromised e))]"

definition asdict_Service :: "Service \<Rightarrow> pyval" where
  "asdict_Service s = PDict [
     (''name'', PStr (svc_name s)),
     (''version'', PStr (version s)),
     (''port'', PInt (svc_port s)),
     (''state'', PStr (svc_state s)),
     (''vulnerabilities'', PList (map asdict_Vulnerability (vulnerabilities s))),
     (''encryption'', asdict_opt asdict_EncryptedData (encryption s)),
     (''employees_with_access'', PList (map asdict_Employee (employees_with_access s)))]"

definition asdict_Honeypot :: "Honeypot \<Rightarrow> pyval" where
  "asdict_Honeypot h = PDict [
     (''port'', PInt (hp_port h)),
     (''fake_service'', PStr (fake_service h)),
     (''detection_chance'', PFloat (detection_chance h)),
     (''trace_increase'', PInt (trace_increase h))]"

definition asdict_NetworkNode :: "NetworkNode \<Rightarrow> pyval" where
  "asdict_NetworkNode n = PDict [
     (''uid'', PStr (uid n)),
     (''name'', PStr (name n)),
     (''ip_address'', PStr (ip_address n)),
     (''network_type'', PEnum (NetworkType_value (network_type n))),
     (''security_rating'', PInt (security_rating n)),
     (''firewall_strength'', PInt (firewall_strength n)),
     (''max_firewall'', PInt (max_firewall n)),
     (''ice_level'', PInt (ice_level n)),
     (''services'', PList (map asdict_Service (services n))),
     (''discovered_services'', PIntSet (discovered_services n)),
     (''discovered_vulns'', PStrSet (discovered_vulns n)),
     (''compromised'', PBool (compromised n)),
     (''data_value'', PInt (data_value n)),
     (''trace_progress'', PFloat (trace_progress n)),
     (''trace_speed'', PFloat (trace_speed n)),
     (''last_attack_time'', asdict_opt PDatetime (last_attack_time n)),
     (''connections'', PList (map PStr (connections n))),
     (''honeypots'', PList (map asdict_Honeypot (honeypots n))),
     (''has_siem'', PBool (has_siem n)),
     (''has_incident_response'', PBool (has_incident_response n)),
     (''admin_active'', PBool (admin_active n)),
     (''admin_skill'', PInt (admin_skill n)),
     (''backdoor_installed'', PBool (backdoor_installed n)),
     (''network_segment'', PStr (network_segment n)),
     (''employees'', PList (map asdict_Employee (employees n))),
     (''encrypted_traffic'', PList (map asdict_EncryptedData (encrypted_traffic n)))]"

subsubsection \<open>SaveManager.save\_game\<close>

text \<open>\<^verbatim>\<open>convert\<close> and \<^verbatim>\<open>deep_convert\<close>, the local functions of \<^verbatim>\<open>save_game\<close>:
  \<^verbatim>\<open>deep_convert\<close> recurses into dicts and lists only and hands every other value to
  \<^verbatim>\<open>convert\<close>, which has no case for a tuple.\<close>

fun convert :: "pyval \<Rightarrow> pyval" where
  "convert (PIntSet S) = PList (map PInt (sorted_list_of_set S))"
| "convert (PStrSet S) = PList (map PStr (sorted_list_of_set S))"
| "convert (PEnum v) = PStr v"
| "convert (PDatetime (Datetime text)) = PStr text"
| "convert obj = obj"

fun deep_convert :: "pyval \<Rightarrow> pyval"
  and deep_convert_list :: "pyval list \<Rightarrow> pyval list"
  and deep_convert_items :: "(string \<times> pyval) list \<Rightarrow> (string \<times> pyval) list" where
  "deep_convert (PDict d) = PDict (deep_convert_items d)"
| "deep_convert (PList xs) = PList (deep_convert_list xs)"
| "deep_convert PNone = convert PNone"
| "deep_convert (PBool b) = convert (PBool b)"
| "deep_convert (PInt i) = convert (PInt i)"
| "deep_convert (PFloat r) = convert (PFloat r)"
| "deep_convert (PStr s) = convert (PStr s)"
| "deep_convert (PTuple xs) = convert (PTuple xs)"
| "deep_convert (PIntSet S) = convert (PIntSet S)"
| "deep_convert (PStrSet S) = convert (PStrSet S)"
| "deep_convert (PEnum v) = convert (PEnum v)"
| "deep_convert (PDatetime t) = convert (PDatetime t)"
| "deep_convert_list [] = []"
| "deep_convert_list (x # xs) = deep_convert x # deep_convert_list xs"
| "deep_convert_items [] = []"
| "deep_convert_items ((k, v) # d) = (k, deep_convert v) # deep_convert_items d"

text \<open>\<^verbatim>\<open>json.loads(json.dumps(x))\<close>: a tuple is written as an array and read back as a
  list; a set, an Enum member or a datetime is not serializable.\<close>

fun json_roundtrip :: "pyval \<Rightarrow> py_error + pyval"
  and json_roundtrip_list :: "pyval list \<Rightarrow> py_error + pyval list"
  and json_roundtrip_items :: "(string \<times> pyval) list \<Rightarrow> py_error + (string \<times> pyval) list" where
  "json_roundtrip PNone = Inr PNone"
| "json_roundtrip (PBool b) = Inr (PBool b)"
| "json_roundtrip (PInt i) = Inr (PInt i)"
| "json_roundtrip (PFloat r) = Inr (PFloat r)"
| "json_roundtrip (PStr s) = Inr (PStr s)"
| "json_roundtrip (PList xs) =
     (case json_roundtrip_list xs of Inl e \<Rightarrow> Inl e | Inr ys \<Rightarrow> Inr (PList ys))"
| "json_roundtrip (PTuple xs) =
     (case json_roundtrip_list xs of Inl e \<Rightarrow> Inl e | Inr ys \<Rightarrow> Inr (PList ys))"
| "json_roundtrip (PDict d) =
     (case json_roundtrip_items d of Inl e \<Rightarrow> Inl e | Inr d' \<Rightarrow> Inr (PDict d'))"
| "json_roundtrip (PIntSet S) = Inl TypeError"
| "json_roundtrip (PStrSet S) = Inl TypeError"
| "json_roundtrip (PEnum v) = Inl TypeError"
| "json_roundtrip (PDatetime t) = Inl TypeError"
| "json_roundtrip_list [] = Inr []"
| "json_roundtrip_list (x # xs) =
     (case json_roundtrip x of
        Inl e \<Rightarrow> Inl e
      | Inr y \<Rightarrow> (case json_roundtrip_list xs of Inl e \<Rightarrow> Inl e | Inr ys \<Rightarrow> Inr (y # ys)))"
| "json_roundtrip_items [] = Inr []"
| "json_roundtrip_items ((k, v) # d) =
     (case json_roundtrip v of
        Inl e \<Rightarrow> Inl e
      | Inr y \<Rightarrow> (case json_roundtrip_items d of Inl e \<Rightarrow> Inl e | Inr d' \<Rightarrow> Inr ((k, y) # d')))"

text \<open>The \<^verbatim>\<open>'nodes'\<close> entry of the dict that \<^verbatim>\<open>save_game\<close> writes, as \<^verbatim>\<open>load_game\<close> reads
  it back from the file. (The gzip layer and the other entries are left out.)\<close>

definition save_game_nodes :: "(string \<times> NetworkNode) list \<Rightarrow> py_error + pyval" where
  "save_game_nodes ns =
     json_roundtrip (deep_convert (PList (map asdict_NetworkNode (map snd ns))))"

subsubsection \<open>GameState.load\_from\_dict\<close>

text \<open>The records are typed, the dicts of a save file are not. Reading a field yields
  \<open>Unmodelled\<close> where the file holds a value of another shape than the one \<^verbatim>\<open>save_game\<close>
  writes; a Python \<^verbatim>\<open>int\<close> is accepted where a \<^verbatim>\<open>float\<close> is written.\<close>

definition bind_err :: "'e + 'a \<Rightarrow> ('a \<Rightarrow> 'e + 'b) \<Rightarrow> 'e + 'b" where
  "bind_err m f = (case m of Inl e \<Rightarrow> Inl e | Inr x \<Rightarrow> f x)"

fun map_err :: "('a \<Rightarrow> 'e + 'b) \<Rightarrow> 'a list \<Rightarrow> 'e + 'b list" where
  "map_err f [] = Inr []"
| "map_err f (x # xs) = bind_err (f x) (\<lambda>y. bind_err (map_err f xs) (\<lambda>ys. Inr (y # ys)))"

definition field :: "pyval \<Rightarrow> string \<Rightarrow> py_error + pyval" where
  "field d k = (case d of PDict kvs \<Rightarrow> dict_get kvs k | _ \<Rightarrow> Inl Unmodelled)"

text \<open>\<^verbatim>\<open>d.get(k, default)\<close>\<close>

definition field_or :: "pyval \<Rightarrow> string \<Rightarrow> pyval \<Rightarrow> py_error + pyval" where
  "field_or d k dflt =
     (case d of
        PDict kvs \<Rightarrow> (case map_of kvs k of None \<Rightarrow> Inr dflt | Some v \<Rightarrow> Inr v)
      | _ \<Rightarrow> Inl Unmodelled)"

fun as_str :: "pyval \<Rightarrow> py_error + string" where
  "as_str (PStr s) = Inr s"
| "as_str _ = Inl Unmodelled"

fun as_int :: "pyval \<Rightarrow> py_error + int" where
  "as_int (PInt i) = Inr i"
| "as_int _ = Inl Unmodelled"

fun as_float :: "pyval \<Rightarrow> py_error + rat" where
  "as_float (PFloat r) = Inr r"
| "as_float (PInt i) = Inr (of_int i)"
| "as_float _ = Inl Unmodelled"

fun as_bool :: "pyval \<Rightarrow> py_error + bool" where
  "as_bool (PBool b) = Inr b"
| "as_bool _ = Inl Unmodelled"

fun as_list :: "pyval \<Rightarrow> py_error + pyval list" where
  "as_list (PList xs) = Inr xs"
| "as_list _ = Inl Unmodelled"

fun as_opt_str :: "pyval \<Rightarrow> py_error + string option" where
  "as_opt_str PNone = Inr None"
| "as_opt_str (PStr s) = Inr (Some s)"
| "as_opt_str _ = Inl Unmodelled"

text \<open>A sequence of integers is taken as it is found: the list of a JSON array stays a
  list.\<close>

fun as_int_seq :: "pyval \<Rightarrow> py_error + int_seq" where
  "as_int_seq (PList xs) = bind_err (map_err as_int xs) (\<lambda>is. Inr (PyList is))"
| "as_int_seq (PTuple xs) = bind_err (map_err as_int xs) (\<lambda>is. Inr (PyTuple is))"
| "as_int_seq _ = Inl Unmodelled"

text \<open>Python's truth value of a field, for \<^verbatim>\<open>if d.get(k):\<close>\<close>

fun truthy :: "pyval \<Rightarrow> bool" where
  "truthy PNone = False"
| "truthy (PBool b) = b"
| "truthy (PInt i) = (i \<noteq> 0)"
| "truthy (PFloat r) = (r \<noteq> 0)"
| "truthy (PStr s) = (s \<noteq> [])"
| "truthy (PList xs) = (xs \<noteq> [])"
| "truthy (PTuple xs) = (xs \<noteq> [])"
| "truthy (PIntSet S) = (S \<noteq> {})"
| "truthy (PStrSet S) = (S \<noteq> {})"
| "truthy (PDict d) = (d \<noteq> [])"
| "truthy (PEnum v) = True"
| "truthy (PDatetime t) = True"

text \<open>\<^verbatim>\<open>v_data['exploit_type'] = ExploitType(v_data['exploit_type'])\<close>, then
  \<^verbatim>\<open>Vulnerability(**v_data)\<close>: every other field goes into the dataclass as the file has
  it.\<close>

definition load_Vulnerability :: "pyval \<Rightarrow> py_error + Vulnerability" where
  "load_Vulnerability v_data =
     bind_err (bind_err (bind_err (field v_data ''exploit_type'') as_str) ExploitType_of) (\<lambda>et.
     bind_err (bind_err (field v_data ''name'') as_str) (\<lambda>nm.
     bind_err (bind_err (field v_data ''severity'') as_float) (\<lambda>sev.
     bind_err (bind_err (field v_data ''patch_level'') as_int) (\<lambda>pl.
     bind_err (bind_err (field v_data ''discovery_difficulty'') as_float) (\<lambda>dd.
     bind_err (bind_err (field v_data ''firewall_damage'') as_int_seq) (\<lambda>fd.
     bind_err (bind_err (field v_data ''trace_cost'') as_int) (\<lambda>tc.
     bind_err (bind_err (field v_data ''success_rate_base'') as_float) (\<lambda>srb.
     bind_err (bind_err (field_or v_data ''requires_tool'' PNone) as_opt_str) (\<lambda>rt.
     Inr \<lparr>vuln_name = nm, exploit_type = et, severity = sev, patch_level = pl,
          discovery_difficulty = dd, firewall_damage = fd, trace_cost = tc,
          success_rate_base = srb, requires_tool = rt\<rparr>)))))))))"

definition load_EncryptedData :: "pyval \<Rightarrow> py_error + EncryptedData" where
  "load_EncryptedData e_data =
     bind_err (bind_err (bind_err (field e_data ''encryption_type'') as_str) EncryptionType_of)
       (\<lambda>et.
     bind_err (bind_err (field e_data ''data_size'') as_int) (\<lambda>ds.
     bind_err (bind_err (field e_data ''value'') as_int) (\<lambda>v.
     bind_err (bind_err (field e_data ''difficulty'') as_float) (\<lambda>df.
     bind_err (bind_err (field_or e_data ''cracked'' (PBool False)) as_bool) (\<lambda>cr.
     Inr \<lparr>encryption_type = et, data_size = ds, enc_value = v, enc_difficulty = df,
          cracked = cr\<rparr>)))))"

definition load_Employee :: "pyval \<Rightarrow> py_error + Employee" where
  "load_Employee e =
     bind_err (bind_err (field e ''name'') as_str) (\<lambda>nm.
     bind_err (bind_err (field e ''email'') as_str) (\<lambda>em.
     bind_err (bind_err (field e ''department'') as_str) (\<lambda>dp.
     bind_err (bind_err (field e ''access_level'') as_int) (\<lambda>al.
     bind_err (bind_err (field e ''social_media_activity'') as_float) (\<lambda>sm.
     bind_err (bind_err (field e ''phishing_susceptibility'') as_float) (\<lambda>ps.
     bind_err (bind_err (field_or e ''compromised'' (PBool False)) as_bool) (\<lambda>cp.
     Inr \<lparr>emp_name = nm, email = em, department = dp, access_level = al,
          social_media_activity = sm, phishing_susceptibility = ps,
          emp_compromised = cp\<rparr>)))))))"

definition load_Honeypot :: "pyval \<Rightarrow> py_error + Honeypot" where
  "load_Honeypot h =
     bind_err (bind_err (field h ''port'') as_int) (\<lambda>pt.
     bind_err (bind_err (field h ''fake_service'') as_str) (\<lambda>fs.
     bind_err (bind_err (field h ''detection_chance'') as_float) (\<lambda>dc.
     bind_err (bind_err (field h ''trace_increase'') as_int) (\<lambda>ti.
     Inr \<lparr>hp_port = pt, fake_service = fs, detection_chance = dc, trace_increase = ti\<rparr>))))"

definition load_Service :: "pyval \<Rightarrow> py_error + Service" where
  "load_Service s_data =
     bind_err (bind_err (bind_err (field s_data ''vulnerabilities'') as_list)
                 (map_err load_Vulnerability)) (\<lambda>vulns.
     bind_err (bind_err (field_or s_data ''encryption'' PNone)
                 (\<lambda>e_data. if truthy e_data
                            then bind_err (load_EncryptedData e_data) (\<lambda>e. Inr (Some e))
                            else if e_data = PNone then Inr None else Inl Unmodelled)) (\<lambda>enc.
     bind_err (bind_err (bind_err (field_or s_data ''employees_with_access'' (PList [])) as_list)
                 (map_err load_Employee)) (\<lambda>ewa.
     bind_err (bind_err (field s_data ''name'') as_str) (\<lambda>nm.
     bind_err (bind_err (field s_data ''version'') as_str) (\<lambda>ver.
     bind_err (bind_err (field s_data ''port'') as_int) (\<lambda>pt.
     bind_err (bind_err (field s_data ''state'') as_str) (\<lambda>st.
     Inr \<lparr>svc_name = nm, version = ver, svc_port = pt, svc_state = st, vulnerabilities = vulns,
          encryption = enc, employees_with_access = ewa\<rparr>)))))))"

definition load_NetworkNode :: "pyval \<Rightarrow> py_error + NetworkNode" where
  "load_NetworkNode n_data =
     bind_err (bind_err (bind_err (field n_data ''network_type'') as_str) NetworkType_of) (\<lambda>nt.
     bind_err (bind_err (bind_err (field n_data ''discovered_services'') as_list)
                 (map_err as_int)) (\<lambda>dsv.
     bind_err (bind_err (bind_err (field n_data ''discovered_vulns'') as_list)
                 (map_err as_str)) (\<lambda>dvl.
     bind_err (bind_err (field_or n_data ''last_attack_time'' PNone)
                 (\<lambda>t. if truthy t then bind_err (as_str t) (\<lambda>text. Inr (Some (Datetime text)))
                       else if t = PNone then Inr None else Inl Unmodelled)) (\<lambda>lat.
     bind_err (bind_err (bind_err (field n_data ''services'') as_list)
                 (map_err load_Service)) (\<lambda>svcs.
     bind_err (bind_err (bind_err (field_or n_data ''honeypots'' (PList [])) as_list)
                 (map_err load_Honeypot)) (\<lambda>hps.
     bind_err (bind_err (bind_err (field_or n_data ''employees'' (PList [])) as_list)
                 (map_err load_Employee)) (\<lambda>emps.
     bind_err (bind_err (bind_err (field_or n_data ''encrypted_traffic'' (PList [])) as_list)
                 (map_err load_EncryptedData)) (\<lambda>traffic.
     bind_err (bind_err (field n_data ''uid'') as_str) (\<lambda>u.
     bind_err (bind_err (field n_data ''name'') as_str) (\<lambda>nm.
     bind_err (bind_err (field n_data ''ip_address'') as_str) (\<lambda>ip.
     bind_err (bind_err (field n_data ''security_rating'') as_int) (\<lambda>sr.
     bind_err (bind_err (field n_data ''firewall_strength'') as_int) (\<lambda>fw.
     bind_err (bind_err (field n_data ''max_firewall'') as_int) (\<lambda>mfw.
     bind_err (bind_err (field n_data ''ice_level'') as_int) (\<lambda>ice.
     bind_err (bind_err (field n_data ''compromised'') as_bool) (\<lambda>cp.
     bind_err (bind_err (field n_data ''data_value'') as_int) (\<lambda>dv.
     bind_err (bind_err (field n_data ''trace_progress'') as_float) (\<lambda>tp.
     bind_err (bind_err (field n_data ''trace_speed'') as_float) (\<lambda>ts.
     bind_err (bind_err (bind_err (field n_data ''connections'') as_list)
                 (map_err as_str)) (\<lambda>conns.
     bind_err (bind_err (field_or n_data ''has_siem'' (PBool False)) as_bool) (\<lambda>siem.
     bind_err (bind_err (field_or n_data ''has_incident_response'' (PBool False)) as_bool) (\<lambda>ir.
     bind_err (bind_err (field_or n_data ''admin_active'' (PBool False)) as_bool) (\<lambda>aa.
     bind_err (bind_err (field_or n_data ''admin_skill'' (PInt 1)) as_int) (\<lambda>ask.
     bind_err (bind_err (field_or n_data ''backdoor_installed'' (PBool False)) as_bool) (\<lambda>bd.
     bind_err (bind_err (field_or n_data ''network_segment'' (PStr ''DMZ'')) as_str) (\<lambda>seg.
     Inr \<lparr>uid = u, name = nm, ip_address = ip, network_type = nt, security_rating = sr,
          firewall_strength = fw, max_firewall = mfw, ice_level = ice, services = svcs,
          discovered_services = set dsv, discovered_vulns = set dvl, compromised = cp,
          data_value = dv, trace_progress = tp, trace_speed = ts, last_attack_time = lat,
          connections = conns, honeypots = hps, has_siem = siem, has_incident_response = ir,
          admin_active = aa, admin_skill = ask, backdoor_installed = bd,
          network_segment = seg, employees = emps,
          encrypted_traffic = traffic\<rparr>))))))))))))))))))))))))))"

text \<open>The node loop of \<^verbatim>\<open>load_from_dict\<close>: \<^verbatim>\<open>state.network.nodes[node.uid] = node\<close> for every
  entry of \<^verbatim>\<open>data['nodes']\<close>.\<close>

definition load_from_dict_nodes :: "pyval \<Rightarrow> py_error + (string \<times> NetworkNode) list" where
  "load_from_dict_nodes nodes_data =
     bind_err (bind_err (as_list nodes_data) (map_err load_NetworkNode))
       (\<lambda>ns. Inr (fold (\<lambda>node d. dict_set d (uid node) node) ns []))"

text \<open>Saving the nodes of a state and loading them again.\<close>

definition save_then_load_nodes ::
  "(string \<times> NetworkNode) list \<Rightarrow> py_error + (string \<times> NetworkNode) list" where
  "save_then_load_nodes ns = bind_err (save_game_nodes ns) load_from_dict_nodes"

subsection \<open>Concrete inputs\<close>

text \<open>The menu number of a skill in \<^verbatim>\<open>check_level_up\<close> (\<^verbatim>\<open>enumerate(skills, 1)\<close>).\<close>

fun skill_number :: "skill_name \<Rightarrow> int" where
  "skill_number Scanning = 1"
| "skill_number Exploitation = 2"
| "skill_number Stealth = 3"
| "skill_number Cryptanalysis = 4"
| "skill_number Social_engineering = 5"
| "skill_number Reverse_engineering = 6"
| "skill_number Botnet_management = 7"

text \<open>A player who answers every prompt with a line that is no number, and one who types
  the lines of a list and then only such lines.\<close>

definition non_numeric :: "nat \<Rightarrow> int option" where
  "non_numeric k = None"

definition answers :: "int option list \<Rightarrow> nat \<Rightarrow> int option" where
  "answers xs k = (if k < length xs then xs ! k else None)"

definition new_year :: datetime where
  "new_year = Datetime ''2026-01-01T00:00:00''"

text \<open>The new player of \<^verbatim>\<open>GameState.__init__\<close> after a grant of experience.\<close>

definition player_with_exp :: "int \<Rightarrow> PlayerState" where
  "player_with_exp e = (initial_player new_year)\<lparr>experience := e\<rparr>"

definition player_with_credits :: "int \<Rightarrow> PlayerState" where
  "player_with_credits c = (initial_player new_year)\<lparr>credits := c\<rparr>"

text \<open>The new player with three points of exploitation, as in the specification's scenario.\<close>

definition scenario_player :: PlayerState where
  "scenario_player = (initial_player new_year)\<lparr>skills := default_skills\<lparr>exploitation := 3\<rparr>\<rparr>"

text \<open>A player with four tools of the market, some reputation and a botnet, for the
  seizure.\<close>

definition raided_player :: PlayerState where
  "raided_player = (initial_player new_year)\<lparr>reputation := 40,
     inventory := take 4 generate_tools,
     botnets := [\<lparr>botnet_size = 120, quality = 55 / 100, maintenance_cost = 240,
                  ddos_power = 33, detected_nodes = 0\<rparr>],
     heat_level := 65, under_investigation := True, investigation_progress := 100\<rparr>"




text \<open>A vulnerability as \<^verbatim>\<open>generate_vulnerabilities\<close> builds it from its first template,
  \<^verbatim>\<open>("SQL Injection in login form", ExploitType.SQL_INJECTION, 0.7, 2, 0.3, (15, 30), 8, 0.65,
  None)\<close>, for the service \<^verbatim>\<open>nginx\<close> with no jitter drawn, and a node of security rating 4
  of the shape \<^verbatim>\<open>_create_node\<close> gives one: three services, five employees, no honeypot
  below rating 5, \<^verbatim>\<open>trace_speed = 0.5 + 4 * 0.3\<close>.\<close>

definition sql_injection_vuln :: Vulnerability where
  "sql_injection_vuln = \<lparr>vuln_name = ''SQL Injection in login form (nginx)'',
     exploit_type = SQL_INJECTION, severity = 7 / 10, patch_level = 2,
     discovery_difficulty = 3 / 10, firewall_damage = PyTuple [15, 30], trace_cost = 8,
     success_rate_base = 65 / 100, requires_tool = None\<rparr>"

definition nginx_service :: Service where
  "nginx_service = \<lparr>svc_name = ''nginx'', version = ''1.18.0'', svc_port = 80,
     svc_state = ''open'', vulnerabilities = [sql_injection_vuln], encryption = None,
     employees_with_access = []\<rparr>"

definition ssh_service :: Service where
  "ssh_service = \<lparr>svc_name = ''OpenSSH'', version = ''7.9p1'', svc_port = 22,
     svc_state = ''filtered'', vulnerabilities = [], encryption = None,
     employees_with_access = []\<rparr>"

definition mysql_service :: Service where
  "mysql_service = \<lparr>svc_name = ''MySQL'', version = ''5.7.31'', svc_port = 3306,
     svc_state = ''closed'', vulnerabilities = [], encryption = None,
     employees_with_access = []\<rparr>"

definition staff :: "Employee list" where
  "staff = [
     \<lparr>emp_name = ''James Smith'', email = ''james.smith@apexsystems.com'', department = ''IT'',
       access_level = 1, social_media_activity = 1 / 2, phishing_susceptibility = 7 / 10,
       emp_compromised = False\<rparr>,
     \<lparr>emp_name = ''Mary Jones'', email = ''mary.jones@apexsystems.com'', department = ''HR'',
       access_level = 2, social_media_activity = 1 / 2, phishing_susceptibility = 1 / 2,
       emp_compromised = False\<rparr>,
     \<lparr>emp_name = ''John Brown'', email = ''john.brown@apexsystems.com'',
       department = ''Finance'', access_level = 3, social_media_activity = 1 / 2,
       phishing_susceptibility = 1 / 2, emp_compromised = False\<rparr>,
     \<lparr>emp_name = ''Linda Davis'', email = ''linda.davis@apexsystems.com'',
       department = ''Legal'', access_level = 4, social_media_activity = 1 / 2,
       phishing_susceptibility = 1 / 2, emp_compromised = False\<rparr>,
     \<lparr>emp_name = ''David Miller'', email = ''david.miller@apexsystems.com'',
       department = ''Executive'', access_level = 5, social_media_activity = 1 / 2,
       phishing_susceptibility = 1 / 2, emp_compromised = False\<rparr>]"

definition generated_node :: NetworkNode where
  "generated_node = \<lparr>uid = ''0123456789ab'', name = ''Apex Systems'',
     ip_address = ''10.0.0.1'', network_type = CORPORATE, security_rating = 4,
     firewall_strength = 400, max_firewall = 400, ice_level = 3,
     services = [nginx_service, ssh_service, mysql_service],
     discovered_services = {}, discovered_vulns = {}, compromised = False, data_value = 800,
     trace_progress = 0, trace_speed = 17 / 10, last_attack_time = None,
     connections = [''aaaaaaaaaaaa'', ''bbbbbbbbbbbb''],
     honeypots = [], has_siem = False, has_incident_response = False, admin_active = False,
     admin_skill = 1, backdoor_installed = False, network_segment = ''INTERNAL'',
     employees = staff, encrypted_traffic = []\<rparr>"

text \<open>The same node after a scan that found the first service and its vulnerability.\<close>

definition scanned_node :: NetworkNode where
  "scanned_node = generated_node\<lparr>discovered_services := {0},
     discovered_vulns := {''0123456789ab_0_SQL Injection in login form (nginx)''}\<rparr>"

text \<open>The draws of a pass through the attack loop in which the player types a line that
  is no number; the rolls are 1, above every chance.\<close>

definition typo_draws :: attack_draws where
  "typo_draws = \<lparr>choice = None, exploit_roll = 1, minigame_passed = False, damage_draw = 0,
     patch_roll = 1, botnet_choice = None, admin_roll = 1, penalty_draw = 100,
     investigation_roll = 1, level_inputs = non_numeric\<rparr>"

text \<open>A rival of skill level 3 and the draws of a turn in which it picks the first
  available node and compromises it.\<close>

definition rival_zero_cool :: RivalHacker where
  "rival_zero_cool = \<lparr>rival_name = ''ZeroCool'', skill_level = 3,
     specialization = ''Exploitation'', active_targets = [], last_seen = new_year,
     rival_hostile = False\<rparr>"

definition lucky_rival_draws :: rival_draws where
  "lucky_rival_draws = \<lparr>activity_roll = 5 / 100, target_pick = 0, seen_now = new_year,
     compromise_roll = 1 / 100\<rparr>"

text \<open>A phishing campaign against the fifth employee that succeeds, on the node with 150
  points of firewall left.\<close>

definition weakened_node :: NetworkNode where
  "weakened_node = generated_node\<lparr>firewall_strength := 150\<rparr>"

definition phishing_hit :: phishing_draws where
  "phishing_hit = \<lparr>victim_pick = 4, phishing_roll = 1 / 10,
     phishing_level_inputs = non_numeric\<rparr>"

text \<open>An attack session in which every line typed is such a line.\<close>

definition typo_session :: "nat \<Rightarrow> attack_draws" where
  "typo_session k = typo_draws"

text \<open>The node with its firewall at 0, as the phishing campaign above leaves it (trace
  aside).\<close>

definition breached_node :: NetworkNode where
  "breached_node = generated_node\<lparr>firewall_strength := 0\<rparr>"

text \<open>The generated node with the damage range of its vulnerability as a list.\<close>

definition reloaded_node :: NetworkNode where
  "reloaded_node = generated_node\<lparr>services :=
     [nginx_service\<lparr>vulnerabilities := [sql_injection_vuln\<lparr>firewall_damage := PyList [15, 30]\<rparr>]\<rparr>,
      ssh_service, mysql_service]\<rparr>"





section \<open>Properties\<close>

subsection \<open>Leveling\<close>

lemma level_loop_run:
  assumes "1 \<le> level p" and "exp_needed = level p * EXP_PER_LEVEL_MULTIPLIER"
  shows "\<exists>n. level_loop inp k exp_needed p =
           Some (p\<lparr>experience := experience p - (\<Sum>i<n. (level p + int i) * 100),
                   level := level p + int n,
                   skills := fold choose_skill (map inp [k..<k + n]) (skills p)\<rparr>, k + n)
         \<and> experience p - (\<Sum>i<n. (level p + int i) * 100) < (level p + int n) * 100
         \<and> (0 \<le> experience p \<longrightarrow> 0 \<le> experience p - (\<Sum>i<n. (level p + int i) * 100))
         \<and> int n * 100 \<le> max 0 (experience p)"
  using assms
proof (induction "nat (experience p)" arbitrary: p k exp_needed rule: less_induct)
  case less
  show ?case
  proof (cases "experience p \<ge> exp_needed")
    case False
    then have "level_loop inp k exp_needed p = Some (p, k)"
      by (subst level_loop.simps) simp
    with False less.prems show ?thesis
      by (intro exI[of _ 0]) (simp add: EXP_PER_LEVEL_MULTIPLIER_def)
  next
    case True
    define p3 where "p3 = p\<lparr>experience := experience p - exp_needed, level := level p + 1,
      skills := choose_skill (inp k) (skills p)\<rparr>"
    have step: "level_loop inp k exp_needed p =
        level_loop inp (Suc k) (level p3 * EXP_PER_LEVEL_MULTIPLIER) p3"
      using True by (subst level_loop.simps) (simp add: p3_def Let_def)
    have needed: "exp_needed = level p * 100" "100 \<le> exp_needed"
      using less.prems by (simp_all add: EXP_PER_LEVEL_MULTIPLIER_def)
    have "nat (experience p3) < nat (experience p)"
      using True needed by (simp add: p3_def)
    moreover have "1 \<le> level p3" using less.prems by (simp add: p3_def)
    ultimately obtain n where
      run: "level_loop inp (Suc k) (level p3 * EXP_PER_LEVEL_MULTIPLIER) p3 =
           Some (p3\<lparr>experience := experience p3 - (\<Sum>i<n. (level p3 + int i) * 100),
                   level := level p3 + int n,
                   skills := fold choose_skill (map inp [Suc k..<Suc k + n]) (skills p3)\<rparr>, Suc k + n)"
      and exit: "experience p3 - (\<Sum>i<n. (level p3 + int i) * 100) < (level p3 + int n) * 100"
      and nonneg: "0 \<le> experience p3 \<longrightarrow> 0 \<le> experience p3 - (\<Sum>i<n. (level p3 + int i) * 100)"
      and bound: "int n * 100 \<le> max 0 (experience p3)"
      using less.hyps[of p3 "level p3 * EXP_PER_LEVEL_MULTIPLIER" "Suc k"] by blast
    have sum: "(\<Sum>i<Suc n. (level p + int i) * 100) = exp_needed + (\<Sum>i<n. (level p3 + int i) * 100)"
      by (simp add: sum.lessThan_Suc_shift needed p3_def algebra_simps sum.distrib)
    have upt: "[k..<k + Suc n] = k # [Suc k..<Suc k + n]"
      by (simp add: upt_conv_Cons)
    have e3: "0 \<le> experience p3" using True needed by (simp add: p3_def)
    show ?thesis
    proof (intro exI[of _ "Suc n"] conjI)
      show "level_loop inp k exp_needed p =
        Some (p\<lparr>experience := experience p - (\<Sum>i<Suc n. (level p + int i) * 100),
                level := level p + int (Suc n),
                skills := fold choose_skill (map inp [k..<k + Suc n]) (skills p)\<rparr>, k + Suc n)"
        unfolding step run sum upt by (simp add: p3_def algebra_simps)
      show "experience p - (\<Sum>i<Suc n. (level p + int i) * 100) < (level p + int (Suc n)) * 100"
        unfolding sum using exit by (simp add: p3_def algebra_simps)
      show "0 \<le> experience p \<longrightarrow> 0 \<le> experience p - (\<Sum>i<Suc n. (level p + int i) * 100)"
        unfolding sum using nonneg e3 by (simp add: p3_def algebra_simps)
      show "int (Suc n) * 100 \<le> max 0 (experience p)"
        using bound e3 True needed by (simp add: p3_def)
    qed
  qed
qed

lemma choose_skill_getattr:
  "getattr (choose_skill c s) sk =
     (if c = Some (skill_number sk) \<and> getattr s sk < MAX_SKILL_LEVEL
      then getattr s sk + 1 else getattr s sk)"
proof (cases c)
  case None
  then show ?thesis by (simp add: choose_skill_def)
next
  case (Some i)
  consider "i < 1 \<or> 7 < i" | "i = 1" | "i = 2" | "i = 3" | "i = 4" | "i = 5" | "i = 6" | "i = 7"
    by linarith
  then show ?thesis
  proof cases
    case 1
    with Some show ?thesis
      by (cases sk) (auto simp: choose_skill_def skill_names_def Let_def)
  qed (use Some in \<open>cases sk; simp add: choose_skill_def skill_names_def Let_def MAX_SKILL_LEVEL_def\<close>)+
qed

text \<open>
  C10. \<^verbatim>\<open>check_level_up\<close> terminates for every player with a positive level and
  non-negative experience: the loop returns, after at most \<open>experience div 100\<close> passes, since
  every pass takes \<open>level * 100 \<ge> 100\<close> from the experience.
\<close>

theorem check_level_up_terminates:
  assumes "1 \<le> level p" and "0 \<le> experience p"
  shows "\<exists>p' n. check_level_up inp p = Some (p', n) \<and> int n * 100 \<le> experience p"
proof -
  from level_loop_run[OF assms(1) refl, of inp 0] obtain n where
    "check_level_up inp p =
       Some (p\<lparr>experience := experience p - (\<Sum>i<n. (level p + int i) * 100),
               level := level p + int n,
               skills := fold choose_skill (map inp [0..<0 + n]) (skills p)\<rparr>, 0 + n)"
    and "int n * 100 \<le> max 0 (experience p)"
    unfolding check_level_up_def by blast
  with assms(2) show ?thesis by auto
qed

theorem check_level_up_terminates_witness:
  "1 \<le> level (player_with_exp 350) \<and> 0 \<le> experience (player_with_exp 350)
   \<and> (\<exists>p' n. check_level_up non_numeric (player_with_exp 350) = Some (p', n)
         \<and> int n * 100 \<le> experience (player_with_exp 350))"
  using check_level_up_terminates[of "player_with_exp 350" non_numeric]
  by (simp add: player_with_exp_def initial_player_def STARTING_LEVEL_def)

text \<open>
  C6 (as the code has it). The experience needed at level \<open>L\<close> is \<open>L * 100\<close>. A call of
  \<^verbatim>\<open>check_level_up\<close> on a player of positive level gains some number \<open>n\<close> of levels, shows
  \<open>n\<close> prompts, takes the thresholds of the levels \<open>level, ..., level + n - 1\<close> from the
  experience and leaves less than the next threshold (and no debt). After each level gained
  the answer to that prompt is applied: the skill whose menu number was typed goes up by one
  if it is below 10, and no other skill changes; an answer that is no number from 1 to 7, or
  that names a skill at 10, changes no skill.
\<close>

theorem check_level_up_levels:
  assumes "1 \<le> level p"
  shows "(\<exists>n. check_level_up inp p =
            Some (p\<lparr>experience := experience p - (\<Sum>i<n. (level p + int i) * EXP_PER_LEVEL_MULTIPLIER),
                    level := level p + int n,
                    skills := fold choose_skill (map inp [0..<n]) (skills p)\<rparr>, n)
          \<and> experience p - (\<Sum>i<n. (level p + int i) * EXP_PER_LEVEL_MULTIPLIER)
              < (level p + int n) * EXP_PER_LEVEL_MULTIPLIER
          \<and> (0 \<le> experience p \<longrightarrow>
                0 \<le> experience p - (\<Sum>i<n. (level p + int i) * EXP_PER_LEVEL_MULTIPLIER)))
       \<and> (\<forall>c s sk. getattr (choose_skill c s) sk =
             (if c = Some (skill_number sk) \<and> getattr s sk < MAX_SKILL_LEVEL
              then getattr s sk + 1 else getattr s sk))"
proof -
  from level_loop_run[OF assms refl, of inp 0]
  have "\<exists>n. check_level_up inp p =
            Some (p\<lparr>experience := experience p - (\<Sum>i<n. (level p + int i) * EXP_PER_LEVEL_MULTIPLIER),
                    level := level p + int n,
                    skills := fold choose_skill (map inp [0..<n]) (skills p)\<rparr>, n)
          \<and> experience p - (\<Sum>i<n. (level p + int i) * EXP_PER_LEVEL_MULTIPLIER)
              < (level p + int n) * EXP_PER_LEVEL_MULTIPLIER
          \<and> (0 \<le> experience p \<longrightarrow>
                0 \<le> experience p - (\<Sum>i<n. (level p + int i) * EXP_PER_LEVEL_MULTIPLIER))"
    unfolding check_level_up_def EXP_PER_LEVEL_MULTIPLIER_def by auto
  then show ?thesis using choose_skill_getattr by blast
qed

theorem check_level_up_levels_witness:
  "1 \<le> level (player_with_exp 350)
   \<and> check_level_up (answers [Some 2, Some 9]) (player_with_exp 350) =
       Some ((player_with_exp 350)\<lparr>experience := 50, level := 3,
               skills := default_skills\<lparr>exploitation := 2\<rparr>\<rparr>, 2)"
proof -
  have lv: "1 \<le> level (player_with_exp 350)"
    by (simp add: player_with_exp_def initial_player_def STARTING_LEVEL_def)
  from check_level_up_levels[OF lv, of "answers [Some 2, Some 9]"] obtain n where
    run: "check_level_up (answers [Some 2, Some 9]) (player_with_exp 350) =
            Some ((player_with_exp 350)\<lparr>experience := experience (player_with_exp 350)
                      - (\<Sum>i<n. (level (player_with_exp 350) + int i) * EXP_PER_LEVEL_MULTIPLIER),
                    level := level (player_with_exp 350) + int n,
                    skills := fold choose_skill (map (answers [Some 2, Some 9]) [0..<n])
                                (skills (player_with_exp 350))\<rparr>, n)"
    and exit: "experience (player_with_exp 350)
                 - (\<Sum>i<n. (level (player_with_exp 350) + int i) * EXP_PER_LEVEL_MULTIPLIER)
               < (level (player_with_exp 350) + int n) * EXP_PER_LEVEL_MULTIPLIER"
    and nonneg: "0 \<le> experience (player_with_exp 350) \<longrightarrow>
                0 \<le> experience (player_with_exp 350)
                  - (\<Sum>i<n. (level (player_with_exp 350) + int i) * EXP_PER_LEVEL_MULTIPLIER)"
    by blast
  have n: "n = 2"
  proof -
    have "n < 3"
    proof (rule ccontr)
      assume "\<not> n < 3"
      then have "{..<3} \<subseteq> {..<n}" by auto
      then have "(\<Sum>i<3. (1 + int i) * 100) \<le> (\<Sum>i<n. (1 + int i) * 100)"
        by (intro sum_mono2) auto
      with nonneg show False
        by (simp add: player_with_exp_def initial_player_def GameConstants numeral_3_eq_3)
    qed
    moreover have "n \<noteq> 0"
    proof
      assume "n = 0"
      with exit show False
        by (simp add: player_with_exp_def initial_player_def GameConstants)
    qed
    moreover have "n \<noteq> Suc 0"
    proof
      assume "n = Suc 0"
      with exit show False
        by (simp add: player_with_exp_def initial_player_def GameConstants)
    qed
    ultimately show ?thesis by linarith
  qed
  show ?thesis
    using lv run unfolding n
    by (simp add: player_with_exp_def initial_player_def GameConstants numeral_2_eq_2
          answers_def choose_skill_def skill_names_def default_skills_def Let_def)
qed

theorem check_level_up_no_skill_counterexample:
  "check_level_up non_numeric (player_with_exp 100) =
     Some ((player_with_exp 100)\<lparr>experience := 0, level := 2\<rparr>, 1)
   \<and> skills ((player_with_exp 100)\<lparr>experience := 0, level := 2\<rparr>) = skills (player_with_exp 100)"
  unfolding check_level_up_def
  apply (subst level_loop.simps)
  apply (simp add: player_with_exp_def initial_player_def GameConstants Let_def non_numeric_def
      choose_skill_def)
  apply (subst level_loop.simps)
  apply (simp add: player_with_exp_def initial_player_def GameConstants Let_def)
  done

subsection \<open>The exploit success rate\<close>

lemma fold_tool_bonus:
  "fold (\<lambda>tool acc. if tool_type tool = EXPLOIT_FRAMEWORK
                     then acc + effectiveness tool * TOOL_SUCCESS_BONUS else acc) tools a
     = a + exploit_tool_bonus tools * TOOL_SUCCESS_BONUS"
  by (induction tools arbitrary: a) (simp_all add: exploit_tool_bonus_def algebra_simps)

lemma fold_exploit_events:
  "fold (\<lambda>event m. if etype event = GLOBAL_PATCH then m * multiplier event
                    else if etype event = ZERO_DAY_LEAK then m * multiplier event
                    else m) evs a
     = a * exploit_event_multiplier evs"
  by (induction evs arbitrary: a) (simp_all add: exploit_event_multiplier_def algebra_simps)

lemma clamp_bounds: "lo \<le> hi \<Longrightarrow> lo \<le> clamp lo hi x \<and> clamp lo hi x \<le> hi"
  by (simp add: clamp_def)

text \<open>
  C3. With the CPU and RAM slots filled, \<^verbatim>\<open>calculate_success_rate\<close> returns the clamped
  formula of the specification, where the tool bonus is the summed effectiveness of the
  exploit-framework tools owned and the event multiplier the product of the multipliers of
  the active GLOBAL\_PATCH and ZERO\_DAY\_LEAK events. The formula stays within
  \<open>[0.05, 0.98]\<close> for all inputs, and the specification's scenario evaluates to \<open>0.74\<close>.
\<close>

theorem calculate_success_rate_formula:
  assumes "map_of (hardware p) ''CPU'' = Some cpu"
    and "map_of (hardware p) ''RAM'' = Some ram"
  shows "calculate_success_rate p vuln =
           Inr (spec_success_rate (success_rate_base vuln) (exploitation (skills p))
                  (exploit_tool_bonus (inventory p)) (bonus cpu) (bonus ram)
                  (exploit_event_multiplier (active_events p)) (patch_level vuln))
         \<and> 5 / 100 \<le> spec_success_rate b s t c r e pl
         \<and> spec_success_rate b s t c r e pl \<le> 98 / 100
         \<and> spec_success_rate (65 / 100) 3 0 1 1 1 2 = 74 / 100"
proof (intro conjI)
  show "calculate_success_rate p vuln =
           Inr (spec_success_rate (success_rate_base vuln) (exploitation (skills p))
                  (exploit_tool_bonus (inventory p)) (bonus cpu) (bonus ram)
                  (exploit_event_multiplier (active_events p)) (patch_level vuln))"
    using assms
    by (simp add: calculate_success_rate_def dict_get_def fold_tool_bonus fold_exploit_events
        spec_success_rate_def clamp_def Let_def GameConstants)
  show "5 / 100 \<le> spec_success_rate b s t c r e pl"
    unfolding spec_success_rate_def using clamp_bounds[of "5 / 100" "98 / 100"] by simp
  show "spec_success_rate b s t c r e pl \<le> 98 / 100"
    unfolding spec_success_rate_def using clamp_bounds[of "5 / 100" "98 / 100"] by simp
  show "spec_success_rate (65 / 100) 3 0 1 1 1 2 = 74 / 100"
    by (simp add: spec_success_rate_def clamp_def)
qed

theorem calculate_success_rate_formula_witness:
  "map_of (hardware scenario_player) ''CPU'' = Some basic_processor
   \<and> map_of (hardware scenario_player) ''RAM'' = Some memory_8gb
   \<and> calculate_success_rate scenario_player sql_injection_vuln = Inr (74 / 100)
   \<and> calculate_success_rate scenario_player (sql_injection_vuln\<lparr>patch_level := 100\<rparr>)
       = Inr (5 / 100)"
proof -
  have cpu: "map_of (hardware scenario_player) ''CPU'' = Some basic_processor"
    and ram: "map_of (hardware scenario_player) ''RAM'' = Some memory_8gb"
    by (simp_all add: scenario_player_def initial_player_def initial_hardware_def)
  have sc: "exploitation (skills scenario_player) = 3" "inventory scenario_player = []"
    "active_events scenario_player = []"
    by (simp_all add: scenario_player_def initial_player_def)
  show ?thesis
    using cpu ram
      calculate_success_rate_formula[OF cpu ram, of sql_injection_vuln]
      calculate_success_rate_formula[OF cpu ram, of "sql_injection_vuln\<lparr>patch_level := 100\<rparr>"]
    by (simp add: sc sql_injection_vuln_def basic_processor_def memory_8gb_def
        exploit_tool_bonus_def exploit_event_multiplier_def spec_success_rate_def clamp_def)
qed

subsection \<open>The seizure after an investigation\<close>

lemma mset_fold_remove1:
  "mset ys \<subseteq># mset xs \<Longrightarrow> mset (fold remove1 ys xs) = mset xs - mset ys"
proof (induction ys arbitrary: xs)
  case Nil
  then show ?case by simp
next
  case (Cons y ys)
  from Cons.prems have "mset ys \<subseteq># mset (remove1 y xs)"
    by (simp add: insert_subset_eq_iff)
  from Cons.IH[OF this] show ?case by simp
qed

lemma mset_sample_subset:
  assumes "distinct sample" and "\<forall>i\<in>set sample. i < length xs"
  shows "mset (map (\<lambda>i. xs ! i) sample) \<subseteq># mset xs"
proof -
  have "mset sample \<subseteq># mset [0..<length xs]"
  proof -
    have "mset sample = mset_set (set sample)"
      using assms(1) by (simp add: mset_set_set)
    moreover have "mset [0..<length xs] = mset_set {0..<length xs}"
      by (metis mset_upt)
    moreover have "set sample \<subseteq> {0..<length xs}" using assms(2) by auto
    ultimately show ?thesis
      by (simp add: subset_imp_msubset_mset_set)
  qed
  then have "image_mset (\<lambda>i. xs ! i) (mset sample)
      \<subseteq># image_mset (\<lambda>i. xs ! i) (mset [0..<length xs])"
    by (rule image_mset_subseteq_mono)
  moreover have "image_mset (\<lambda>i. xs ! i) (mset [0..<length xs]) = mset xs"
    by (metis map_nth mset_map)
  ultimately show ?thesis by simp
qed

lemma seized_tools:
  assumes "is_sample sample (length xs) k"
  shows "length (fold remove1 (map (\<lambda>i. xs ! i) sample) xs) = length xs - k
    \<and> mset (fold remove1 (map (\<lambda>i. xs ! i) sample) xs) \<subseteq># mset xs"
proof -
  from assms have d: "distinct sample" and l: "length sample = k"
    and b: "\<forall>i\<in>set sample. i < length xs"
    by (auto simp: is_sample_def list_all_iff)
  have sub: "mset (map (\<lambda>i. xs ! i) sample) \<subseteq># mset xs"
    by (rule mset_sample_subset[OF d b])
  have eq: "mset (fold remove1 (map (\<lambda>i. xs ! i) sample) xs)
      = mset xs - mset (map (\<lambda>i. xs ! i) sample)"
    by (rule mset_fold_remove1[OF sub])
  have "size (mset (fold remove1 (map (\<lambda>i. xs ! i) sample) xs))
      = size (mset xs) - size (mset (map (\<lambda>i. xs ! i) sample))"
    unfolding eq using sub by (rule size_Diff_submset)
  then have "length (fold remove1 (map (\<lambda>i. xs ! i) sample) xs) = length xs - k"
    using l by simp
  moreover have "mset (fold remove1 (map (\<lambda>i. xs ! i) sample) xs) \<subseteq># mset xs"
    unfolding eq by simp
  ultimately show ?thesis by simp
qed

text \<open>The rounding of binary64: the exponent brackets the value, a rounded value is within
  half a unit in the last place, and an integer below \<^verbatim>\<open>2^53\<close> is a float.\<close>

lemma round_half_even_near: "\<bar>of_int (round_half_even x) - x\<bar> \<le> 1 / 2"
  unfolding round_half_even_def Let_def by (auto simp: abs_if) linarith+

lemma round_half_even_of_int: "round_half_even (of_int m) = m"
  by (simp add: round_half_even_def)

lemma bitlen_powi:
  assumes "0 < (n::int)"
  shows "(2::rat) powi (bitlen n - 1) \<le> of_int n" and "of_int n < (2::rat) powi (bitlen n)"
proof -
  from bitlen_bounds[OF assms]
  have lo: "2 ^ nat (bitlen n - 1) \<le> n" and hi: "n < 2 ^ nat (bitlen n)" by simp_all
  have pos: "0 < bitlen n"
    using assms bitlen_eq_zero_iff[of n] bitlen_nonneg[of n] by linarith
  from lo have "(of_int (2 ^ nat (bitlen n - 1)) :: rat) \<le> of_int n"
    by (simp only: of_int_le_iff)
  then show "(2::rat) powi (bitlen n - 1) \<le> of_int n"
    using pos by (simp add: power_int_def)
  from hi have "(of_int n :: rat) < of_int (2 ^ nat (bitlen n))"
    by (simp only: of_int_less_iff)
  then show "of_int n < (2::rat) powi (bitlen n)"
    using pos by (simp add: power_int_def)
qed

lemma float_exponent_bounds:
  assumes "x \<noteq> 0"
  shows "2 powi (float_exponent x) \<le> \<bar>x\<bar>" and "\<bar>x\<bar> < 2 powi (float_exponent x + 1)"
proof -
  obtain n d where q: "quotient_of \<bar>x\<bar> = (n, d)" by (cases "quotient_of \<bar>x\<bar>")
  then have d: "0 < d" and x: "\<bar>x\<bar> = of_int n / of_int d"
    by (simp_all add: quotient_of_denom_pos quotient_of_div)
  have n: "0 < n"
  proof -
    have "0 < \<bar>x\<bar>" using assms by simp
    then have "0 < (of_int n :: rat) / of_int d" using x by simp
    then show ?thesis using d by (simp add: zero_less_divide_iff)
  qed
  define a where "a = bitlen n"
  define b where "b = bitlen d"
  note nb = bitlen_powi[OF n, folded a_def]
  note db = bitlen_powi[OF d, folded b_def]
  have dpos: "(0::rat) < of_int d" using d by simp
  have lower: "(2::rat) powi (a - b - 1) \<le> \<bar>x\<bar>"
  proof -
    have "(2::rat) powi (a - b - 1) = 2 powi (a - 1) / 2 powi b"
      using power_int_diff[of "2::rat" "a - 1" b] by (simp add: algebra_simps)
    also have "\<dots> \<le> of_int n / 2 powi b"
      using nb(1) by (simp add: divide_right_mono)
    also have "\<dots> \<le> of_int n / of_int d"
      using db(2) n dpos by (simp add: frac_le)
    finally show ?thesis using x by simp
  qed
  have upper: "\<bar>x\<bar> < (2::rat) powi (a - b + 1)"
  proof -
    have p: "(0::rat) < 2 powi (b - 1)" by simp
    have "\<bar>x\<bar> = of_int n / of_int d" by (rule x)
    also have "\<dots> < 2 powi a / of_int d"
      using nb(2) dpos by (simp add: divide_strict_right_mono)
    also have "\<dots> \<le> 2 powi a / 2 powi (b - 1)"
      using db(1) p by (simp add: frac_le)
    also have "\<dots> = 2 powi (a - b + 1)"
      using power_int_diff[of "2::rat" a "b - 1"] by (simp add: algebra_simps)
    finally show ?thesis .
  qed
  have e: "float_exponent x = (if \<bar>x\<bar> < 2 powi (a - b) then a - b - 1 else a - b)"
    by (simp add: float_exponent_def q a_def b_def Let_def)
  show "2 powi (float_exponent x) \<le> \<bar>x\<bar>"
    using lower by (simp add: e not_less)
  show "\<bar>x\<bar> < 2 powi (float_exponent x + 1)"
    using upper by (simp add: e)
qed


lemma float_exponent_less:
  assumes "x \<noteq> 0" and "\<bar>x\<bar> < 2 powi n"
  shows "float_exponent x < n"
proof (rule ccontr)
  assume "\<not> float_exponent x < n"
  then have "n \<le> float_exponent x" by simp
  then have "(2::rat) powi n \<le> 2 powi (float_exponent x)"
    by (intro power_int_increasing) simp_all
  with float_exponent_bounds(1)[OF assms(1)] assms(2) show False by simp
qed

lemma binary64_near:
  assumes "1 / 2 \<le> x"
  shows "\<bar>binary64 x - x\<bar> \<le> x / 2 ^ 53"
proof -
  have x0: "x \<noteq> 0" "0 < x" using assms by simp_all
  define ulp :: rat where "ulp = 2 powi (max (float_exponent x - 52) (- 1074))"
  have upos: "0 < ulp" by (simp add: ulp_def)
  have "(2::rat) powi (float_exponent x - 52) = 2 powi (float_exponent x) / 2 ^ 52"
    using power_int_diff[of "2::rat" "float_exponent x" 52] by simp
  also have "\<dots> \<le> x / 2 ^ 52"
    using float_exponent_bounds(1)[OF x0(1)] x0(2) by (simp add: divide_right_mono)
  finally have u1: "(2::rat) powi (float_exponent x - 52) \<le> x / 2 ^ 52" .
  have "(2::rat) powi (- 1074) \<le> 2 powi (- 53)"
    by (intro power_int_increasing) simp_all
  also have "(2::rat) powi (- 53) = (1 / 2) / 2 ^ 52"
    by (simp add: power_int_minus)
  also have "\<dots> \<le> x / 2 ^ 52" using assms by (simp add: divide_right_mono)
  finally have u2: "(2::rat) powi (- 1074) \<le> x / 2 ^ 52" .
  have u: "ulp \<le> x / 2 ^ 52" using u1 u2 by (simp add: ulp_def max_def)
  have b: "binary64 x = of_int (round_half_even (x / ulp)) * ulp"
    using x0 by (simp add: binary64_def ulp_def Let_def)
  have "binary64 x - x = (of_int (round_half_even (x / ulp)) - x / ulp) * ulp"
    using upos by (simp add: b field_simps)
  then have "\<bar>binary64 x - x\<bar> = \<bar>of_int (round_half_even (x / ulp)) - x / ulp\<bar> * ulp"
    using upos by (simp add: abs_mult)
  also have "\<dots> \<le> (1 / 2) * ulp"
    using round_half_even_near[of "x / ulp"] upos by (simp add: mult_right_mono)
  also have "\<dots> \<le> (1 / 2) * (x / 2 ^ 52)" using u by simp
  finally show ?thesis by simp
qed

lemma binary64_of_int:
  assumes "0 \<le> c" and "c < 2 ^ 53"
  shows "binary64 (of_int c) = of_int c"
proof (cases "c = 0")
  case True
  then show ?thesis by (simp add: binary64_def)
next
  case False
  with assms have c: "1 \<le> c" by simp
  define x :: rat where "x = of_int c"
  have x0: "x \<noteq> 0" and x1: "1 \<le> x" and ax: "\<bar>x\<bar> = x" using c by (simp_all add: x_def)
  define e where "e = float_exponent x"
  have lo: "2 powi e \<le> x" and hi: "x < 2 powi (e + 1)"
    using float_exponent_bounds[OF x0] by (simp_all add: e_def ax)
  have e0: "0 \<le> e"
  proof (rule ccontr)
    assume "\<not> 0 \<le> e"
    then have "e + 1 \<le> 0" by simp
    then have "(2::rat) powi (e + 1) \<le> 2 powi 0"
      by (intro power_int_increasing) simp_all
    with hi x1 show False by simp
  qed
  have e52: "e \<le> 52"
  proof (rule ccontr)
    assume "\<not> e \<le> 52"
    then have "53 \<le> e" by simp
    then have "(2::rat) powi 53 \<le> 2 powi e"
      by (intro power_int_increasing) simp_all
    with lo have "(2::rat) ^ 53 \<le> x" by simp
    moreover have "x < 2 ^ 53" using assms(2) unfolding x_def
      by (metis of_int_less_iff of_int_numeral of_int_power)
    ultimately show False by simp
  qed
  define k where "k = nat (52 - e)"
  have ek: "e - 52 = - int k" using e52 by (simp add: k_def)
  have p: "(2::rat) powi (e - 52) = 1 / 2 ^ k"
    by (simp add: ek power_int_minus field_simps)
  have ulp: "(2::rat) powi (max (e - 52) (- 1074)) = 1 / 2 ^ k"
    using e0 by (simp add: p max_def)
  have q: "x / (1 / 2 ^ k) = of_int (c * 2 ^ k)" by (simp add: x_def)
  have "binary64 x = of_int (round_half_even (x / (1 / 2 ^ k))) * (1 / 2 ^ k)"
    by (simp only: binary64_def Let_def e_def[symmetric] ulp x0 if_False)
  also have "\<dots> = x"
    unfolding q round_half_even_of_int by (simp add: x_def)
  finally show ?thesis by (simp add: x_def)
qed

lemma binary64_seven_tenths: "binary64 (7 / 10) = 3152519739159347 / 4503599627370496"
  by code_simp

lemma asset_product:
  assumes "0 \<le> c" and "c < 2 ^ 49"
  shows "0 \<le> binary64 (of_int c * binary64 (7 / 10))"
    and "binary64 (of_int c * binary64 (7 / 10)) < 2 ^ 49"
    and "of_int ((7 * c) div 10) - 1 < binary64 (of_int c * binary64 (7 / 10))"
    and "binary64 (of_int c * binary64 (7 / 10)) < of_int ((7 * c) div 10) + 1"
proof -
  define x :: rat where "x = of_int c * binary64 (7 / 10)"
  define r where "r = binary64 x"
  define q where "q = (7 * c) div 10"
  have q1: "(of_int q :: rat) \<le> of_int c * (7 / 10)"
   and q2: "of_int c * (7 / 10) \<le> (of_int q :: rat) + 9 / 10"
  proof -
    have "7 * c = 10 * q + (7 * c) mod 10" by (simp add: q_def)
    moreover have "0 \<le> (7 * c) mod 10" "(7 * c) mod 10 \<le> 9" by simp_all
    ultimately have "10 * q \<le> 7 * c" "7 * c \<le> 10 * q + 9" by linarith+
    then have "(of_int (10 * q) :: rat) \<le> of_int (7 * c)"
      "(of_int (7 * c) :: rat) \<le> of_int (10 * q + 9)"
      by (simp_all only: of_int_le_iff)
    then show "(of_int q :: rat) \<le> of_int c * (7 / 10)"
      and "of_int c * (7 / 10) \<le> (of_int q :: rat) + 9 / 10" by simp_all
  qed
  have goal: "0 \<le> r \<and> r < 2 ^ 49 \<and> of_int q - 1 < r \<and> r < of_int q + 1"
  proof (cases "c = 0")
    case True
    then show ?thesis by (simp add: r_def x_def q_def binary64_def)
  next
    case False
    with assms have c1: "(1::rat) \<le> of_int c" by simp
    have "(of_int c :: rat) < of_int (2 ^ 49)" using assms(2) by (simp only: of_int_less_iff)
    then have c2: "(of_int c :: rat) < 2 ^ 49" by simp
    have xe: "x = of_int c * (7 / 10) - of_int c / (5 * 2 ^ 52)"
      by (simp add: x_def binary64_seven_tenths field_simps)
    have xlo: "1 / 2 \<le> x" using c1 by (simp add: x_def binary64_seven_tenths field_simps)
    have xhi: "x < 2 ^ 49 - 1 / 16" using c1 c2 unfolding xe by (simp add: field_simps)
    have near: "\<bar>r - x\<bar> \<le> x / 2 ^ 53" unfolding r_def by (rule binary64_near[OF xlo])
    have "x / 2 ^ 53 < 1 / 16" using xhi by (simp add: field_simps)
    with near have n1: "x - 1 / 16 < r" and n2: "r < x + 1 / 16" by linarith+
    have d: "of_int c / (5 * 2 ^ 52) < (1 / 40 :: rat)" using c2 by (simp add: field_simps)
    have d0: "(0 :: rat) \<le> of_int c / (5 * 2 ^ 52)" using c1 by simp
    have r1: "of_int q - 1 < r" using n1 xe d q1 by linarith
    have r2: "r < of_int q + 1" using n2 xe d0 q2 by linarith
    have r0: "0 \<le> r" using n1 xlo by linarith
    have r3: "r < 2 ^ 49" using n2 xhi by linarith
    show ?thesis using r0 r1 r2 r3 by simp
  qed
  then show "0 \<le> binary64 (of_int c * binary64 (7 / 10))"
    and "binary64 (of_int c * binary64 (7 / 10)) < 2 ^ 49"
    and "of_int ((7 * c) div 10) - 1 < binary64 (of_int c * binary64 (7 / 10))"
    and "binary64 (of_int c * binary64 (7 / 10)) < of_int ((7 * c) div 10) + 1"
    by (simp_all add: q_def r_def x_def)
qed

lemma asset_loss_bounds:
  assumes "0 \<le> c" and "c < 2 ^ 49"
  shows "(7 * c) div 10 - 1 \<le> py_int (binary64 (of_int c * binary64 (7 / 10)))"
    and "py_int (binary64 (of_int c * binary64 (7 / 10))) \<le> (7 * c) div 10"
proof -
  define r where "r = binary64 (of_int c * binary64 (7 / 10))"
  define q where "q = (7 * c) div 10"
  note ap = asset_product[OF assms, folded r_def q_def]
  have "q - 1 \<le> \<lfloor>r\<rfloor>" using ap(3) by (simp add: le_floor_iff less_imp_le)
  moreover have "\<lfloor>r\<rfloor> < q + 1"
  proof -
    have "r < of_int (q + 1)" using ap(4) by simp
    then show ?thesis by (simp only: floor_less_iff)
  qed
  ultimately have "q - 1 \<le> py_int r \<and> py_int r \<le> q" using ap(1) by (simp add: py_int_def)
  then show "(7 * c) div 10 - 1 \<le> py_int (binary64 (of_int c * binary64 (7 / 10)))"
    and "py_int (binary64 (of_int c * binary64 (7 / 10))) \<le> (7 * c) div 10"
    by (simp_all add: q_def r_def)
qed

lemma float_exponent_zero: "float_exponent 0 = - 2"
  by code_simp

lemma finite_float_below:
  assumes "0 \<le> x" and "x < 2 ^ 53"
  shows "finite_float x"
proof (cases "x = 0")
  case True
  then show ?thesis by (simp add: finite_float_def float_exponent_zero)
next
  case False
  have "\<bar>x\<bar> < 2 powi 53" using assms by simp
  from float_exponent_less[OF False this] show ?thesis by (simp add: finite_float_def)
qed

lemma float_of_int_exact:
  assumes "0 \<le> c" and "c < 2 ^ 53"
  shows "float_of_int c = Inr (of_int c)"
proof -
  have "(of_int c :: rat) < of_int (2 ^ 53)" using assms(2) by (simp only: of_int_less_iff)
  then have "(of_int c :: rat) < 2 ^ 53" by simp
  moreover have "(0 :: rat) \<le> of_int c" using assms(1) by simp
  ultimately have "finite_float (of_int c)" by (intro finite_float_below)
  then show ?thesis
    by (simp only: float_of_int_def binary64_of_int[OF assms] Let_def if_True)
qed

lemma asset_loss_product:
  assumes "0 \<le> c" and "c < 2 ^ 49"
  shows "int_of_product c (binary64 (7 / 10))
           = Inr (py_int (binary64 (of_int c * binary64 (7 / 10))))"
proof -
  have "c < 2 ^ 53" using assms(2) by simp
  then have f: "float_of_int c = Inr (of_int c)"
    using assms(1) by (rule float_of_int_exact[rotated])
  define r where "r = binary64 (of_int c * binary64 (7 / 10))"
  note ap = asset_product[OF assms, folded r_def]
  have "r < 2 ^ 49" by (rule ap(2))
  also have "(2 :: rat) ^ 49 \<le> 2 ^ 53" by (rule power_increasing) simp_all
  finally have "finite_float r" using ap(1) by (intro finite_float_below)
  then show ?thesis
    by (simp only: int_of_product_def f sum.case Let_def r_def[symmetric] if_True)
qed

lemma asset_loss_1000: "py_int (binary64 (of_int 1000 * binary64 (7 / 10))) = 700"
  by code_simp

lemma asset_loss_700: "py_int (binary64 (of_int 700 * binary64 (7 / 10))) = 489"
  by code_simp

lemma asset_loss_100: "py_int (binary64 (of_int 100 * binary64 (7 / 10))) = 70"
  by code_simp

text \<open>
  C5 (as the code has it). When the investigation completes with credits from 0 to below
  \<^verbatim>\<open>2^49\<close>, \<^verbatim>\<open>asset_loss\<close> is \<^verbatim>\<open>int(credits * 0.7)\<close> as binary64 computes it, which is 70% of
  the credits rounded down or one less (489 of 700 credits); the credits become
  \<open>max(100, credits - asset_loss)\<close>, so the seizure never leaves less than 100; the
  reputation drops by 100 and stops at 0; \<open>min(3, n)\<close> of the \<open>n\<close> tools are taken and the
  rest stay; all botnets go; the heat level is 20; the investigation is cleared.
\<close>

theorem handle_investigation_complete_effects:
  assumes "0 \<le> credits p" and "credits p < 2 ^ 49"
    and "is_sample sample (length (inventory p))
             (min (length (inventory p)) INVESTIGATION_TOOLS_LOST)"
  shows "\<exists>p' asset_loss. handle_investigation_complete sample p = Inr (p', asset_loss)
    \<and> asset_loss = py_int (binary64 (of_int (credits p) * binary64 (7 / 10)))
    \<and> (7 * credits p) div 10 - 1 \<le> asset_loss \<and> asset_loss \<le> (7 * credits p) div 10
    \<and> credits p' = max 100 (credits p - asset_loss)
    \<and> reputation p' = max 0 (reputation p - 100)
    \<and> length (inventory p') = length (inventory p) - min (length (inventory p)) 3
    \<and> mset (inventory p') \<subseteq># mset (inventory p)
    \<and> botnets p' = []
    \<and> heat_level p' = 20
    \<and> \<not> under_investigation p'
    \<and> investigation_progress p' = 0"
proof -
  define loss where "loss = py_int (binary64 (of_int (credits p) * binary64 (7 / 10)))"
  define tools where "tools =
      (if inventory p \<noteq> [] then fold remove1 (map (\<lambda>i. inventory p ! i) sample) (inventory p)
       else inventory p)"
  define p' where "p' = p\<lparr>credits := max 100 (credits p - loss),
      reputation := max 0 (reputation p - 100), inventory := tools, botnets := [],
      under_investigation := False, investigation_progress := 0, heat_level := 20\<rparr>"
  have f: "int_of_product (credits p) (binary64 (7 / 10)) = Inr loss"
    unfolding loss_def by (rule asset_loss_product[OF assms(1,2)])
  have run: "handle_investigation_complete sample p = Inr (p', loss)"
    by (simp add: handle_investigation_complete_def Let_def GameConstants f p'_def tools_def)
  note st = seized_tools[OF assms(3)]
  have len: "length tools = length (inventory p) - min (length (inventory p)) 3"
    unfolding tools_def using st by (simp add: INVESTIGATION_TOOLS_LOST_def)
  have sub: "mset tools \<subseteq># mset (inventory p)"
    unfolding tools_def using st by simp
  have lo: "(7 * credits p) div 10 - 1 \<le> loss"
    unfolding loss_def by (rule asset_loss_bounds(1)[OF assms(1,2)])
  have hi: "loss \<le> (7 * credits p) div 10"
    unfolding loss_def by (rule asset_loss_bounds(2)[OF assms(1,2)])
  have "handle_investigation_complete sample p = Inr (p', loss)
    \<and> loss = py_int (binary64 (of_int (credits p) * binary64 (7 / 10)))
    \<and> (7 * credits p) div 10 - 1 \<le> loss \<and> loss \<le> (7 * credits p) div 10
    \<and> credits p' = max 100 (credits p - loss)
    \<and> reputation p' = max 0 (reputation p - 100)
    \<and> length (inventory p') = length (inventory p) - min (length (inventory p)) 3
    \<and> mset (inventory p') \<subseteq># mset (inventory p)
    \<and> botnets p' = []
    \<and> heat_level p' = 20
    \<and> \<not> under_investigation p'
    \<and> investigation_progress p' = 0"
    using run lo hi len sub by (simp add: p'_def loss_def)
  then show ?thesis by blast
qed

theorem handle_investigation_complete_effects_witness:
  "0 \<le> credits (raided_player\<lparr>credits := 1000\<rparr>)
   \<and> credits (raided_player\<lparr>credits := 1000\<rparr>) < 2 ^ 49
   \<and> is_sample [2, 0, 3] (length (inventory (raided_player\<lparr>credits := 1000\<rparr>)))
       (min (length (inventory (raided_player\<lparr>credits := 1000\<rparr>))) INVESTIGATION_TOOLS_LOST)
   \<and> (\<exists>p' asset_loss.
         handle_investigation_complete [2, 0, 3] (raided_player\<lparr>credits := 1000\<rparr>)
           = Inr (p', asset_loss)
         \<and> asset_loss = 700 \<and> credits p' = 300 \<and> reputation p' = 0
         \<and> length (inventory p') = 1 \<and> botnets p' = [] \<and> heat_level p' = 20)"
proof -
  have inv: "inventory (raided_player\<lparr>credits := 1000\<rparr>) = take 4 generate_tools"
    by (simp add: raided_player_def)
  have len: "length (take 4 generate_tools) = 4"
    by (simp add: generate_tools_def)
  have s: "is_sample [2, 0, 3] (length (inventory (raided_player\<lparr>credits := 1000\<rparr>)))
     (min (length (inventory (raided_player\<lparr>credits := 1000\<rparr>))) INVESTIGATION_TOOLS_LOST)"
    unfolding inv len by (simp add: is_sample_def INVESTIGATION_TOOLS_LOST_def)
  have c: "credits (raided_player\<lparr>credits := 1000\<rparr>) = 1000"
    "reputation (raided_player\<lparr>credits := 1000\<rparr>) = 40"
    by (simp_all add: raided_player_def)
  have c0: "0 \<le> credits (raided_player\<lparr>credits := 1000\<rparr>)"
    and c1: "credits (raided_player\<lparr>credits := 1000\<rparr>) < 2 ^ 49"
    unfolding c by simp_all
  have l: "py_int (binary64 (1000 * binary64 (7 / 10))) = 700"
    using asset_loss_1000 by simp
  from handle_investigation_complete_effects[OF c0 c1 s]
  obtain p' asset_loss where
    "handle_investigation_complete [2, 0, 3] (raided_player\<lparr>credits := 1000\<rparr>)
           = Inr (p', asset_loss)"
    "asset_loss = 700" "credits p' = 300" "reputation p' = 0"
    "length (inventory p') = 1" "botnets p' = []" "heat_level p' = 20"
    unfolding inv len c by (auto simp: l)
  then show ?thesis using c0 c1 s by blast
qed

theorem handle_investigation_complete_floor_counterexample:
  "handle_investigation_complete [] (player_with_credits 100)
     = Inr ((player_with_credits 100)\<lparr>heat_level := 20\<rparr>, 70)
   \<and> credits ((player_with_credits 100)\<lparr>heat_level := 20\<rparr>) = 100
   \<and> credits (player_with_credits 100) - 70 = 30"
proof -
  have f: "int_of_product 100 (binary64 (7 / 10)) = Inr 70"
    using asset_loss_product[of 100] asset_loss_100 by simp
  show ?thesis
    by (simp add: handle_investigation_complete_def player_with_credits_def initial_player_def
        Let_def GameConstants f)
qed

subsection \<open>What the level loop leaves alone\<close>





subsection \<open>The trace accrual\<close>













subsection \<open>An invalid selection in the attack session\<close>

text \<open>
  C4. In a pass through the attack loop on the scanned node, with its trace at 0, a line
  that is no number (and likewise the number 99, which no menu entry carries) runs no
  action, yet the pass goes on to the trace accrual: the node comes out with
  \<^verbatim>\<open>trace_progress\<close> at 1.615. The player is unchanged.
\<close>

theorem attack_typo_accrues_trace:
  "attack_iteration typo_draws (initial_player new_year) scanned_node
     = Some (Inr (Next, initial_player new_year, scanned_node\<lparr>trace_progress := 323 / 200\<rparr>))
   \<and> attack_iteration (typo_draws\<lparr>choice := Some 99\<rparr>) (initial_player new_year) scanned_node
     = Some (Inr (Next, initial_player new_year, scanned_node\<lparr>trace_progress := 323 / 200\<rparr>))
   \<and> trace_progress scanned_node = 0
   \<and> choice typo_draws = None"
  by code_simp

subsection \<open>Saving and loading the nodes\<close>

text \<open>
  C1. Saving the generated node and loading it again gives a node that differs from the
  original: the damage range of its vulnerability was the tuple \<^verbatim>\<open>(15, 30)\<close> and comes back
  as the list \<^verbatim>\<open>[15, 30]\<close>. Every other field of the node is as it was.
\<close>

theorem save_load_changes_firewall_damage:
  "save_then_load_nodes [(uid generated_node, generated_node)]
     = Inr [(uid generated_node, reloaded_node)]
   \<and> reloaded_node \<noteq> generated_node
   \<and> firewall_damage (vulnerabilities (services generated_node ! 0) ! 0) = PyTuple [15, 30]
   \<and> firewall_damage (vulnerabilities (services reloaded_node ! 0) ! 0) = PyList [15, 30]"
  by code_simp

end
